theory Spec2Isabelle
  imports Complex_Main
begin

section \<open>Strings\<close>

text \<open>
  A JavaScript string is a sequence of UTF-16 code units; \<open>length\<close>, \<open>substring\<close>,
  \<open>split\<close> and \<open>trim\<close> all count code units. A code unit is modelled by its number.
  \<open>js\<close> embeds an ASCII literal.
\<close>

type_synonym js_string = "nat list"

abbreviation js :: "string \<Rightarrow> js_string" where
  "js s \<equiv> map of_char s"

text \<open>
  The white space of \<open>String.prototype.trim\<close> and of the regular expression class
  \<open>\s\<close> (ECMAScript WhiteSpace and LineTerminator): TAB, LF, VT, FF, CR, SP, NBSP,
  U+1680, U+2000..U+200A, U+2028, U+2029, U+202F, U+205F, U+3000, U+FEFF.
\<close>

definition is_js_space :: "nat \<Rightarrow> bool" where
  "is_js_space c \<longleftrightarrow>
     c = 9 \<or> c = 10 \<or> c = 11 \<or> c = 12 \<or> c = 13 \<or> c = 32 \<or> c = 160 \<or> c = 5760 \<or>
     (8192 \<le> c \<and> c \<le> 8202) \<or> c = 8232 \<or> c = 8233 \<or> c = 8239 \<or> c = 8287 \<or>
     c = 12288 \<or> c = 65279"

definition trim :: "js_string \<Rightarrow> js_string" where
  "trim s = rev (dropWhile is_js_space (rev (dropWhile is_js_space s)))"

text \<open>
  \<open>s.split(/\s+/)\<close>: the pieces between maximal runs of white space. A leading or a
  trailing run leaves an empty first or last piece, and the empty string gives one empty
  piece. The flag says that the previous code unit was white space; \<open>acc\<close> is the piece
  being read.
\<close>

fun split_go :: "bool \<Rightarrow> js_string \<Rightarrow> js_string \<Rightarrow> js_string list" where
  "split_go insep acc [] = [acc]"
| "split_go insep acc (c # cs) =
     (if is_js_space c
      then (if insep then split_go True acc cs else acc # split_go True [] cs)
      else split_go False (acc @ [c]) cs)"

definition split_ws :: "js_string \<Rightarrow> js_string list" where
  "split_ws s = split_go False [] s"

text \<open>\<open>pieces.join(" ")\<close>\<close>

fun join_sp :: "js_string list \<Rightarrow> js_string" where
  "join_sp [] = []"
| "join_sp [w] = w"
| "join_sp (w # ws) = w @ js '' '' @ join_sp ws"

text \<open>\<open>xs.findIndex(p)\<close>, with \<open>None\<close> for -1.\<close>

fun findIndex :: "('a \<Rightarrow> bool) \<Rightarrow> 'a list \<Rightarrow> nat option" where
  "findIndex p [] = None"
| "findIndex p (x # xs) =
     (if p x then Some 0 else map_option Suc (findIndex p xs))"

section \<open>Data model (types/chat.ts)\<close>

datatype role = User | Assistant

text \<open>A \<open>Date\<close> is its time value in milliseconds; an optional field is an option.\<close>

record ChatMessage =
  msg_id :: js_string
  content :: js_string
  role :: role
  timestamp :: nat
  isError :: "bool option"

text \<open>
  Numbers that only ever are compared and stored (temperature, topP) are rationals.
\<close>

record ChatSettings =
  model :: js_string
  temperature :: rat
  systemPrompt :: "js_string option"
  maxTokens :: "nat option"
  topP :: "rat option"

record ChatSession =
  sess_id :: js_string
  title :: js_string
  messages :: "ChatMessage list"
  createdAt :: nat
  lastModified :: nat
  settings :: "ChatSettings option"

datatype ApiProviderStatus = unknown | valid | invalid | testing

record ApiProviderConfig =
  cfg_id :: js_string
  providerId :: js_string
  cfg_name :: js_string
  apiKey :: js_string
  baseUrl :: "js_string option"
  status :: ApiProviderStatus
  lastTested :: "nat option"

datatype uiDensity = comfortable | compact

record AppSettings =
  defaultChatSettings :: ChatSettings
  apiProviders :: "ApiProviderConfig list"
  sendWithEnter :: bool
  uiDensity :: uiDensity

section \<open>Session store operations (App.tsx)\<close>

text \<open>
  \<open>setSessions(prev => prev.map(...))\<close> of \<open>addMessageToActiveSession\<close>: the
  function applied to the session collection. The guard \<open>if (!sessionId) return\<close>
  leaves the collection alone for the empty id.
\<close>

definition addMessageToActiveSession ::
  "ChatMessage \<Rightarrow> js_string \<Rightarrow> nat \<Rightarrow> ChatSession list \<Rightarrow> ChatSession list" where
  "addMessageToActiveSession message sessionId now prev =
     (if sessionId = [] then prev
      else map (\<lambda>s. if sess_id s = sessionId
                      then s\<lparr>messages := messages s @ [message], lastModified := now\<rparr>
                      else s) prev)"

text \<open>
  The title computed inside \<open>updateSessionTitleIfNeeded\<close> from the first message:
  the first five pieces joined by spaces, cut when longer than 35 code units, and
  \<open>"Chat"\<close> when that is empty.
\<close>

definition newTitle :: "js_string \<Rightarrow> js_string" where
  "newTitle firstMessageContent =
     (let words = join_sp (take 5 (split_ws firstMessageContent));
          t = (if length words > 35 then take 32 words @ js ''...'' else words)
      in if t = [] then js ''Chat'' else t)"

definition updateSessionTitleIfNeeded ::
  "js_string \<Rightarrow> js_string \<Rightarrow> nat \<Rightarrow> ChatSession list \<Rightarrow> ChatSession list" where
  "updateSessionTitleIfNeeded sessionId firstMessageContent now prev =
     map (\<lambda>s. if sess_id s = sessionId \<and> (title s = js ''New Chat'' \<or> title s = [])
               then s\<lparr>title := newTitle firstMessageContent, lastModified := now\<rparr>
               else s) prev"

section \<open>Model table (config.ts)\<close>

text \<open>
  \<open>MODEL_PROVIDERS\<close>: for each provider key its display name and its models
  (id, name), in the order of the object literal.
\<close>

definition MODEL_PROVIDERS ::
  "(js_string \<times> js_string \<times> (js_string \<times> js_string) list) list" where
  "MODEL_PROVIDERS =
     [(js ''openai'', js ''OpenAI'',
        [(js ''gpt-4o-mini'', js ''GPT-4o mini''),
         (js ''gpt-4o'', js ''GPT-4o''),
         (js ''gpt-4-turbo'', js ''GPT-4 Turbo''),
         (js ''gpt-3.5-turbo'', js ''GPT-3.5 Turbo'')]),
      (js ''anthropic'', js ''Anthropic'',
        [(js ''claude-3-opus-20240229'', js ''Claude 3 Opus''),
         (js ''claude-3-sonnet-20240229'', js ''Claude 3 Sonnet''),
         (js ''claude-3-haiku-20240307'', js ''Claude 3 Haiku'')]),
      (js ''groq'', js ''Groq'',
        [(js ''llama3-8b-8192'', js ''LLaMA3-8b''),
         (js ''llama3-70b-8192'', js ''LLaMA3-70b''),
         (js ''mixtral-8x7b-32768'', js ''Mixtral-8x7b''),
         (js ''gemma-7b-it'', js ''Gemma-7b'')])]"

text \<open>
  \<open>toLowerCase\<close> is only ever applied to the provider names of the table, which are
  ASCII; the model lowers the letters A to Z.
\<close>

definition toLowerCase :: "js_string \<Rightarrow> js_string" where
  "toLowerCase s = map (\<lambda>c. if 65 \<le> c \<and> c \<le> 90 then c + 32 else c) s"

text \<open>\<open>getAllModels\<close>: every model as (id, name, provider).\<close>

definition getAllModels :: "(js_string \<times> js_string \<times> js_string) list" where
  "getAllModels =
     concat (map (\<lambda>(key, pname, models).
                    map (\<lambda>(mid, mname). (mid, mname, toLowerCase pname)) models)
                 MODEL_PROVIDERS)"

definition findModelById :: "js_string \<Rightarrow> (js_string \<times> js_string \<times> js_string) option" where
  "findModelById i = find (\<lambda>(mid, mname, provider). mid = i) getAllModels"

definition getProviderForKey :: "js_string \<Rightarrow> js_string" where
  "getProviderForKey providerName = toLowerCase providerName"

definition getProviderIdFromModel :: "js_string \<Rightarrow> js_string option" where
  "getProviderIdFromModel modelId =
     (case findModelById modelId of
        Some (mid, mname, provider) \<Rightarrow> Some (getProviderForKey provider)
      | None \<Rightarrow> None)"

definition DEFAULT_MODEL_ID :: js_string where
  "DEFAULT_MODEL_ID = js ''gpt-4o-mini''"

definition DEFAULT_CHAT_SETTINGS :: ChatSettings where
  "DEFAULT_CHAT_SETTINGS =
     \<lparr>model = DEFAULT_MODEL_ID, temperature = 7 / 10, systemPrompt = Some [],
      maxTokens = None, topP = None\<rparr>"

section \<open>Application state (App.tsx)\<close>

datatype toast = ToastError js_string | ToastSuccess js_string | ToastPlain js_string

datatype confirmVariant = danger | primary

text \<open>
  The only closure ever stored in \<open>confirmModalProps.onConfirm\<close> is the one that
  \<open>handleDeleteChat\<close> builds. It holds the id to delete and the values of
  \<open>activeSessionId\<close>, \<open>isLoading\<close> and \<open>chatTitle\<close> that it captured when the
  dialog was opened.
\<close>

datatype onConfirm = DeleteChatClosure js_string "js_string option" bool js_string

record ConfirmModalProps =
  cm_message :: js_string
  cm_onConfirm :: onConfirm
  cm_title :: "js_string option"
  cm_confirmText :: "js_string option"
  cm_confirmVariant :: confirmVariant

text \<open>
  The state of the \<open>App\<close> component. \<open>controllers\<close> is the store of the
  \<open>AbortController\<close> objects created so far, each with the \<open>aborted\<close> flag of its
  signal; \<open>abortControllerRef\<close> is \<open>abortControllerRef.current\<close>, an index into
  the store or \<open>None\<close> for \<open>null\<close>. \<open>toasts\<close> is the log of the notifications
  emitted.
\<close>

record AppState =
  input :: js_string
  sessions :: "ChatSession list"
  activeSessionId :: "js_string option"
  isLoading :: bool
  isChatSettingsModalOpen :: bool
  editingMessageId :: "js_string option"
  appSettings :: AppSettings
  isConfirmModalOpen :: bool
  confirmModalProps :: "ConfirmModalProps option"
  abortControllerRef :: "nat option"
  controllers :: "bool list"
  toasts :: "toast list"

definition signal_aborted :: "AppState \<Rightarrow> nat \<Rightarrow> bool" where
  "signal_aborted st c \<longleftrightarrow> c < length (controllers st) \<and> controllers st ! c"

text \<open>\<open>controller.abort()\<close>\<close>

definition abort :: "nat \<Rightarrow> AppState \<Rightarrow> AppState" where
  "abort c st = st\<lparr>controllers := (controllers st)[c := True]\<rparr>"

text \<open>Derived state.\<close>

definition activeSession :: "AppState \<Rightarrow> ChatSession option" where
  "activeSession st =
     (case activeSessionId st of
        None \<Rightarrow> None
      | Some a \<Rightarrow> find (\<lambda>s. sess_id s = a) (sessions st))"

definition effectiveChatSettings :: "AppState \<Rightarrow> ChatSettings" where
  "effectiveChatSettings st =
     (case Option.bind (activeSession st) settings of
        Some x \<Rightarrow> x
      | None \<Rightarrow> defaultChatSettings (appSettings st))"

definition isUsingDefaultSettings :: "AppState \<Rightarrow> bool" where
  "isUsingDefaultSettings st \<longleftrightarrow> Option.bind (activeSession st) settings = None"

section \<open>Generation (App.tsx)\<close>

text \<open>
  The outcome of an awaited promise: fulfilled with a value, or rejected with an error
  object, of which the code reads \<open>name\<close> and \<open>message\<close>.
\<close>

datatype 'a settled = Fulfilled 'a | Rejected js_string js_string

text \<open>
  What ends the wait inside \<open>simulateAIResponse\<close>: the timer, or the \<open>abort\<close>
  event of the signal, whose listener clears the timer and rejects.
\<close>

datatype wake = TimerFired | AbortEvent

text \<open>
  The text that \<open>simulateAIResponse\<close> returns. \<open>variation\<close> is the prefix chosen
  with \<open>Math.random\<close> (empty, or naming model and temperature). Code unit 34 is the
  double quote, 10 the line feed, 96 the backtick.
\<close>

definition responseText ::
  "js_string \<Rightarrow> js_string \<Rightarrow> ChatSettings \<Rightarrow> js_string option \<Rightarrow> js_string" where
  "responseText variation prompt settings' baseUrl' =
     (let sysPromptInfo =
            (case systemPrompt settings' of
               None \<Rightarrow> []
             | Some sp \<Rightarrow> if sp = [] then []
                          else [10] @ js ''SysPrompt: '' @ [34] @ take 50 sp @ js ''...'' @ [34]);
          baseUrlInfo =
            (case baseUrl' of
               None \<Rightarrow> []
             | Some u \<Rightarrow> if u = [] then [] else [10] @ js ''BaseURL: '' @ u)
      in variation @ js ''Simulated response: '' @ [34] @ prompt @ [34] @ js ''.''
         @ sysPromptInfo @ baseUrlInfo @ [10, 10] @ [96, 96, 96] @ js ''python'' @ [10]
         @ js ''# Example'' @ [10] @ js ''print('' @ [34] @ js ''Simulated'' @ [34]
         @ js '')'' @ [10] @ [96, 96, 96])"

text \<open>
  \<open>simulateAIResponse\<close> as a function of what ends its wait and of the signal's flag
  at that moment. A missing or empty key rejects at once, before any wait.
\<close>

definition simulateAIResponse ::
  "js_string \<Rightarrow> ChatSettings \<Rightarrow> js_string option \<Rightarrow> js_string option
     \<Rightarrow> wake \<Rightarrow> bool \<Rightarrow> js_string \<Rightarrow> js_string settled" where
  "simulateAIResponse prompt settings' apiKey' baseUrl' w aborted variation =
     (if apiKey' = None \<or> apiKey' = Some []
      then (let providerName =
                  (case findModelById (model settings') of
                     Some (mid, mname, provider) \<Rightarrow>
                       if provider = [] then js ''provider'' else provider
                   | None \<Rightarrow> js ''provider'')
            in Rejected (js ''Error'')
                 (js ''API Key/Config for '' @ providerName @ js '' not set.''))
      else (case w of
              AbortEvent \<Rightarrow> Rejected (js ''AbortError'') (js ''Aborted'')
            | TimerFired \<Rightarrow>
                if aborted then Rejected (js ''AbortError'') (js ''Aborted'')
                else Fulfilled (responseText variation prompt settings' baseUrl')))"

text \<open>
  A generation that has been started and is waiting for the backend: the values that
  the suspended \<open>performAICall\<close> holds in its closure.
\<close>

record AICall =
  call_prompt :: js_string
  call_settings :: ChatSettings
  call_apiKey :: "js_string option"
  call_baseUrl :: "js_string option"
  call_signal :: nat
  call_sessionId :: js_string

text \<open>
  The first lines of \<open>performAICall\<close>: the settings of the call, and the provider
  configuration found for their model (the first one whose \<open>providerId\<close> is the
  model's provider).
\<close>

definition settingsToUse :: "ChatSession \<Rightarrow> AppState \<Rightarrow> ChatSettings" where
  "settingsToUse sessionForCall st =
     (case settings sessionForCall of
        Some x \<Rightarrow> x
      | None \<Rightarrow> defaultChatSettings (appSettings st))"

definition apiProviderConfig :: "ChatSession \<Rightarrow> AppState \<Rightarrow> ApiProviderConfig option" where
  "apiProviderConfig sessionForCall st =
     find (\<lambda>p. Some (providerId p) = getProviderIdFromModel (model (settingsToUse sessionForCall st)))
       (apiProviders (appSettings st))"

text \<open>
  \<open>performAICall\<close> up to its \<open>await\<close>. Without a key it emits a toast and returns:
  the result is \<open>None\<close>, no controller is created and \<open>simulateAIResponse\<close> is not
  called. Otherwise it creates a controller, stores it in the ref, sets \<open>isLoading\<close>
  and calls the backend: the result is the suspended call.
\<close>

definition performAICall_begin ::
  "js_string \<Rightarrow> ChatSession \<Rightarrow> AppState \<Rightarrow> AppState \<times> AICall option" where
  "performAICall_begin prompt sessionForCall st =
     (let providerId' = getProviderIdFromModel (model (settingsToUse sessionForCall st));
          apiKey' = map_option apiKey (apiProviderConfig sessionForCall st);
          baseUrl' = Option.bind (apiProviderConfig sessionForCall st) baseUrl
      in if apiKey' = None \<or> apiKey' = Some []
         then (st\<lparr>toasts := toasts st @
                  [ToastError (js ''API Config for '' @ [39]
                     @ (case providerId' of
                          None \<Rightarrow> js ''unknown''
                        | Some p \<Rightarrow> if p = [] then js ''unknown'' else p)
                     @ [39] @ js '' not found or key missing.'')]\<rparr>, None)
         else (let c = length (controllers st)
               in (st\<lparr>isLoading := True,
                      controllers := controllers st @ [False],
                      abortControllerRef := Some c\<rparr>,
                   Some \<lparr>call_prompt = prompt,
                         call_settings = settingsToUse sessionForCall st,
                         call_apiKey = apiKey', call_baseUrl = baseUrl',
                         call_signal = c, call_sessionId = sess_id sessionForCall\<rparr>)))"

text \<open>
  \<open>performAICall\<close> from its \<open>await\<close> on, for the outcome of the awaited call:
  the rest of the \<open>try\<close> block, the \<open>catch\<close> and the \<open>finally\<close>. \<open>uuid\<close> is
  the value of \<open>uuidv4()\<close> and \<open>now\<close> the value of \<open>new Date()\<close>.
\<close>

definition performAICall_resume ::
  "AICall \<Rightarrow> js_string settled \<Rightarrow> js_string \<Rightarrow> nat \<Rightarrow> AppState \<Rightarrow> AppState" where
  "performAICall_resume call outcome uuid now st =
     (let aborted = signal_aborted st (call_signal call);
          st1 =
            (case outcome of
               Fulfilled aiResponseContent \<Rightarrow>
                 if aborted then st
                 else st\<lparr>sessions := addMessageToActiveSession
                        \<lparr>msg_id = uuid, content = aiResponseContent, role = Assistant,
                         timestamp = now, isError = None\<rparr>
                        (call_sessionId call) now (sessions st)\<rparr>
             | Rejected ename emessage \<Rightarrow>
                 if ename = js ''AbortError''
                 then st\<lparr>sessions := addMessageToActiveSession
                        \<lparr>msg_id = uuid, content = js ''Generation stopped.'',
                         role = Assistant, timestamp = now, isError = Some True\<rparr>
                        (call_sessionId call) now (sessions st)\<rparr>
                 else st\<lparr>sessions := addMessageToActiveSession
                        \<lparr>msg_id = uuid, content = js ''Error: '' @ emessage,
                         role = Assistant, timestamp = now, isError = Some True\<rparr>
                        (call_sessionId call) now (sessions st),
                      toasts := toasts st @ [ToastError (js ''AI Error: '' @ emessage)]\<rparr>)
      in st1\<lparr>isLoading := (if aborted then isLoading st1 else False),
             abortControllerRef := None\<rparr>)"

text \<open>
  The outcome that the backend of the source delivers to a suspended call when its
  wait ends in state \<open>st\<close>.
\<close>

definition backend_outcome :: "AICall \<Rightarrow> wake \<Rightarrow> js_string \<Rightarrow> AppState \<Rightarrow> js_string settled" where
  "backend_outcome call w variation st =
     simulateAIResponse (call_prompt call) (call_settings call) (call_apiKey call)
       (call_baseUrl call) w (signal_aborted st (call_signal call)) variation"

definition handleStopGenerating :: "AppState \<Rightarrow> AppState" where
  "handleStopGenerating st =
     (if isLoading st
      then (case abortControllerRef st of Some c \<Rightarrow> abort c st | None \<Rightarrow> st)
      else st)"

definition handleSelectChat :: "js_string \<Rightarrow> AppState \<Rightarrow> AppState" where
  "handleSelectChat i st =
     (let st1 = (if isLoading st
                 then (case abortControllerRef st of
                         Some c \<Rightarrow> (abort c st)\<lparr>isLoading := False\<rparr>
                       | None \<Rightarrow> st)
                 else st)
      in st1\<lparr>activeSessionId := Some i, input := [], editingMessageId := None\<rparr>)"

text \<open>
  \<open>handleDeleteChat\<close> only opens the confirmation dialog; the deletion is the closure
  it stores, run by the dialog's confirm button (\<open>handleConfirmClick\<close> of
  ConfirmModal.tsx, which then closes the dialog). The closure tests the values of
  \<open>activeSessionId\<close> and \<open>isLoading\<close> it captured when the dialog was opened, and
  reads the sessions and the controller ref when it runs. The callback is memoised on
  \<open>[activeSessionId, isLoading]\<close> only, so the sessions in which it looks the title up
  are those of the render at which it was last memoised: \<open>memoSessions\<close>, which need
  not be the current ones.
\<close>

definition openConfirmation ::
  "js_string \<Rightarrow> onConfirm \<Rightarrow> js_string option \<Rightarrow> js_string option
     \<Rightarrow> confirmVariant option \<Rightarrow> AppState \<Rightarrow> AppState" where
  "openConfirmation message onConfirm' title' confirmText' variant st =
     st\<lparr>confirmModalProps := Some
          \<lparr>cm_message = message, cm_onConfirm = onConfirm', cm_title = title',
           cm_confirmText = confirmText',
           cm_confirmVariant = (case variant of Some v \<Rightarrow> v | None \<Rightarrow> primary)\<rparr>,
        isConfirmModalOpen := True\<rparr>"

definition handleDeleteChat :: "js_string \<Rightarrow> ChatSession list \<Rightarrow> AppState \<Rightarrow> AppState" where
  "handleDeleteChat i memoSessions st =
     (let chatTitle =
            (case find (\<lambda>s. sess_id s = i) memoSessions of
               Some s \<Rightarrow> if title s = [] then js ''this chat'' else title s
             | None \<Rightarrow> js ''this chat'')
      in openConfirmation
           (js ''Are you sure you want to permanently delete '' @ [34] @ chatTitle @ [34]
              @ js ''? This action cannot be undone.'')
           (DeleteChatClosure i (activeSessionId st) (isLoading st) chatTitle)
           (Some (js ''Delete Chat?'')) (Some (js ''Delete'')) (Some danger) st)"

fun run_onConfirm :: "onConfirm \<Rightarrow> AppState \<Rightarrow> AppState" where
  "run_onConfirm (DeleteChatClosure i activeSessionId' isLoading' chatTitle) st =
     (let updated = filter (\<lambda>s. sess_id s \<noteq> i) (sessions st);
          st1 = (if activeSessionId' = Some i
                 then (let st2 = st\<lparr>activeSessionId := None\<rparr>
                       in if isLoading'
                          then (case abortControllerRef st2 of
                                  Some c \<Rightarrow> (abort c st2)\<lparr>isLoading := False\<rparr>
                                | None \<Rightarrow> st2)
                          else st2)
                 else st)
      in st1\<lparr>sessions := updated,
             toasts := toasts st1 @
               [ToastSuccess (js ''Chat '' @ [34] @ chatTitle @ [34] @ js '' deleted.'')]\<rparr>)"

definition handleConfirmClick :: "AppState \<Rightarrow> AppState" where
  "handleConfirmClick st =
     (let st1 = (case confirmModalProps st of
                   Some p \<Rightarrow> run_onConfirm (cm_onConfirm p) st
                 | None \<Rightarrow> st)
      in st1\<lparr>isConfirmModalOpen := False\<rparr>)"

section \<open>Messages: delete and edit (App.tsx)\<close>

definition handleDeleteMessage :: "js_string \<Rightarrow> nat \<Rightarrow> AppState \<Rightarrow> AppState" where
  "handleDeleteMessage messageId now st =
     (case activeSessionId st of
        None \<Rightarrow> st
      | Some a \<Rightarrow>
          if a = [] then st
          else st\<lparr>sessions :=
                 map (\<lambda>s. if sess_id s = a
                           then s\<lparr>messages := filter (\<lambda>m. msg_id m \<noteq> messageId) (messages s),
                                  lastModified := now\<rparr>
                           else s) (sessions st)\<rparr>)"

text \<open>
  The three local variables of \<open>handleSaveEdit\<close> that the updater passed to
  \<open>setSessions\<close> assigns and the handler reads afterwards.
\<close>

record EditVars =
  requiresRegeneration :: bool
  userPromptForRegen :: js_string
  sessionAfterUpdate :: "ChatSession option"

text \<open>
  The callback of \<open>prev.map\<close> in \<open>handleSaveEdit\<close>, for one session: the session it
  returns and the variables as it leaves them. \<open>updatedMessages.length = msgIdx + 1\<close>
  cuts the array after the edited message.
\<close>

definition saveEdit_session ::
  "js_string \<Rightarrow> js_string \<Rightarrow> js_string \<Rightarrow> nat \<Rightarrow> EditVars \<Rightarrow> ChatSession
     \<Rightarrow> ChatSession \<times> EditVars" where
  "saveEdit_session activeSessionId' messageId trimmedContent now v s =
     (if sess_id s = activeSessionId'
      then (case findIndex (\<lambda>m. msg_id m = messageId) (messages s) of
              None \<Rightarrow> (s, v)
            | Some msgIdx \<Rightarrow>
                (let originalMsg = messages s ! msgIdx;
                     v1 = (if content originalMsg \<noteq> trimmedContent \<and> role originalMsg = User
                           then v\<lparr>requiresRegeneration :=
                                    (if int msgIdx < int (length (messages s)) - 1 then True
                                     else requiresRegeneration v),
                                  userPromptForRegen := trimmedContent\<rparr>
                           else v);
                     updatedMessages =
                       map (\<lambda>m. if msg_id m = messageId
                                 then m\<lparr>content := trimmedContent, timestamp := now\<rparr>
                                 else m) (messages s);
                     updatedMessages' =
                       (if requiresRegeneration v1 then take (msgIdx + 1) updatedMessages
                        else updatedMessages);
                     updatedSession = s\<lparr>messages := updatedMessages', lastModified := now\<rparr>
                 in (updatedSession, v1\<lparr>sessionAfterUpdate := Some updatedSession\<rparr>)))
      else (s, v))"

fun saveEdit_map ::
  "js_string \<Rightarrow> js_string \<Rightarrow> js_string \<Rightarrow> nat \<Rightarrow> EditVars \<Rightarrow> ChatSession list
     \<Rightarrow> ChatSession list \<times> EditVars" where
  "saveEdit_map a messageId trimmedContent now v [] = ([], v)"
| "saveEdit_map a messageId trimmedContent now v (s # ss) =
     (let (s', v1) = saveEdit_session a messageId trimmedContent now v s;
          (ss', v2) = saveEdit_map a messageId trimmedContent now v1 ss
      in (s' # ss', v2))"

text \<open>
  \<open>handleSaveEdit\<close> up to its last statement: the new state and, when the handler goes
  on to call \<open>performAICall\<close>, the two arguments of that call. The handler reads the
  three variables right after \<open>setSessions\<close>, but React runs the updater during that
  call only when the component has no pending update; otherwise it runs it at the next
  render, after the handler has returned. \<open>updaterAtCall\<close> says which: when it is
  false the handler still sees the initial values of the variables, while the sessions
  of the next state are the updater's result all the same. For empty trimmed content
  the source returns at once: the body of that branch is the comment
  \<open>/* ... delete logic ... */\<close>.
\<close>

definition handleSaveEdit_update ::
  "bool \<Rightarrow> js_string \<Rightarrow> js_string \<Rightarrow> nat \<Rightarrow> AppState
     \<Rightarrow> AppState \<times> (js_string \<times> ChatSession) option" where
  "handleSaveEdit_update updaterAtCall messageId newContent now st =
     (case activeSessionId st of
        None \<Rightarrow> (st, None)
      | Some a \<Rightarrow>
          if a = [] then (st, None)
          else (let trimmedContent = trim newContent
                in if trimmedContent = [] then (st, None)
                   else (let v0 = \<lparr>requiresRegeneration = False, userPromptForRegen = [],
                                   sessionAfterUpdate = None\<rparr>;
                             (newSessions, v1) =
                               saveEdit_map a messageId trimmedContent now v0 (sessions st);
                             v = (if updaterAtCall then v1 else v0);
                             st1 = st\<lparr>sessions := newSessions, editingMessageId := None,
                                      toasts := toasts st @ [ToastSuccess (js ''Message updated'')]\<rparr>
                         in (st1,
                             if requiresRegeneration v
                             then map_option (\<lambda>s. (userPromptForRegen v, s)) (sessionAfterUpdate v)
                             else None))))"

definition handleSaveEdit ::
  "bool \<Rightarrow> js_string \<Rightarrow> js_string \<Rightarrow> nat \<Rightarrow> AppState \<Rightarrow> AppState \<times> AICall option" where
  "handleSaveEdit updaterAtCall messageId newContent now st =
     (case handleSaveEdit_update updaterAtCall messageId newContent now st of
        (st1, None) \<Rightarrow> (st1, None)
      | (st1, Some (prompt, sessionForCall)) \<Rightarrow> performAICall_begin prompt sessionForCall st1)"

section \<open>Per-chat settings (App.tsx, ChatSettingsModal.tsx)\<close>

definition handleSaveChatSettings ::
  "js_string \<Rightarrow> ChatSettings \<Rightarrow> nat \<Rightarrow> AppState \<Rightarrow> AppState" where
  "handleSaveChatSettings chatId newSettings now st =
     st\<lparr>sessions := map (\<lambda>s. if sess_id s = chatId
                              then s\<lparr>settings := Some newSettings, lastModified := now\<rparr>
                              else s) (sessions st),
        toasts := toasts st @ [ToastSuccess (js ''Chat settings saved'')]\<rparr>"

definition handleResetChatSettings :: "js_string \<Rightarrow> nat \<Rightarrow> AppState \<Rightarrow> AppState" where
  "handleResetChatSettings chatId now st =
     st\<lparr>sessions := map (\<lambda>s. if sess_id s = chatId
                              then s\<lparr>settings := None, lastModified := now\<rparr>
                              else s) (sessions st),
        toasts := toasts st @ [ToastSuccess (js ''Chat settings reset to defaults'')]\<rparr>"

text \<open>
  \<open>JSON.stringify\<close> of a settings object, as the list of the members it prints: a
  member whose value is \<open>undefined\<close> is left out. The keys are taken in the order of
  the interface, which is the order in which the objects of the source get them.
\<close>

datatype json = JString js_string | JNumber rat

definition JSON_stringify :: "ChatSettings \<Rightarrow> (js_string \<times> json) list" where
  "JSON_stringify x =
     [(js ''model'', JString (model x)), (js ''temperature'', JNumber (temperature x))]
     @ (case systemPrompt x of None \<Rightarrow> [] | Some p \<Rightarrow> [(js ''systemPrompt'', JString p)])
     @ (case maxTokens x of None \<Rightarrow> [] | Some n \<Rightarrow> [(js ''maxTokens'', JNumber (of_nat n))])
     @ (case topP x of None \<Rightarrow> [] | Some q \<Rightarrow> [(js ''topP'', JNumber q)])"

text \<open>
  The handlers of the chat settings dialog, on the state of \<open>App\<close>, with the props as
  \<open>App\<close> passes them: \<open>chatId\<close> is \<open>activeSessionId\<close>, \<open>isUsingDefaultSettings\<close>
  the derived value, \<open>onSave\<close> is \<open>handleSaveChatSettings\<close>, \<open>onResetToDefaults\<close>
  is \<open>handleResetChatSettings\<close> and \<open>onClose\<close> closes the dialog. \<open>tempSettings\<close>
  is the dialog's own state, the settings as edited; what the handlers do to that local
  state is not part of the model.
\<close>

definition handleReset :: "nat \<Rightarrow> AppState \<Rightarrow> AppState" where
  "handleReset now st =
     (case activeSessionId st of
        None \<Rightarrow> st
      | Some chatId \<Rightarrow>
          if chatId = [] then st
          else (let st1 = handleResetChatSettings chatId now st
                in st1\<lparr>toasts := toasts st1 @
                         [ToastSuccess (js ''Chat reset to use global defaults.'')]\<rparr>))"

definition handleSaveChanges :: "ChatSettings \<Rightarrow> nat \<Rightarrow> AppState \<Rightarrow> AppState" where
  "handleSaveChanges tempSettings now st =
     (let st1 =
            (case activeSessionId st of
               None \<Rightarrow> st
             | Some chatId \<Rightarrow>
                 if chatId = [] then st
                 else if JSON_stringify tempSettings \<noteq> JSON_stringify DEFAULT_CHAT_SETTINGS
                 then handleSaveChatSettings chatId tempSettings now st
                 else if \<not> isUsingDefaultSettings st then handleReset now st
                 else st\<lparr>toasts := toasts st @
                          [ToastPlain (js ''Settings match global defaults. No changes saved.'')]\<rparr>)
      in st1\<lparr>isChatSettingsModalOpen := False\<rparr>)"

section \<open>Generations in flight\<close>

text \<open>
  The component tracks the generation it is waiting for by \<open>isLoading\<close> and by the
  controller in \<open>abortControllerRef\<close>. A suspended call is in flight in a state when
  it is the one tracked there and its signal has not been aborted.
\<close>

definition in_flight :: "AICall \<Rightarrow> AppState \<Rightarrow> bool" where
  "in_flight call st \<longleftrightarrow>
     isLoading st \<and> abortControllerRef st = Some (call_signal call) \<and>
     call_signal call < length (controllers st) \<and> \<not> controllers st ! call_signal call"

text \<open>The three messages with which \<open>performAICall\<close> can end.\<close>

definition successMessage :: "js_string \<Rightarrow> nat \<Rightarrow> js_string \<Rightarrow> ChatMessage" where
  "successMessage uuid now text =
     \<lparr>msg_id = uuid, content = text, role = Assistant, timestamp = now, isError = None\<rparr>"

definition stoppedMessage :: "js_string \<Rightarrow> nat \<Rightarrow> ChatMessage" where
  "stoppedMessage uuid now =
     \<lparr>msg_id = uuid, content = js ''Generation stopped.'', role = Assistant,
      timestamp = now, isError = Some True\<rparr>"

definition errorMessage :: "js_string \<Rightarrow> nat \<Rightarrow> js_string \<Rightarrow> ChatMessage" where
  "errorMessage uuid now emessage =
     \<lparr>msg_id = uuid, content = js ''Error: '' @ emessage, role = Assistant,
      timestamp = now, isError = Some True\<rparr>"

text \<open>The message that \<open>performAICall\<close> appends for an outcome of the awaited call.\<close>

definition terminalMessage :: "js_string settled \<Rightarrow> js_string \<Rightarrow> nat \<Rightarrow> ChatMessage" where
  "terminalMessage outcome uuid now =
     (case outcome of
        Fulfilled text \<Rightarrow> successMessage uuid now text
      | Rejected ename emessage \<Rightarrow>
          if ename = js ''AbortError'' then stoppedMessage uuid now
          else errorMessage uuid now emessage)"

section \<open>Concrete states\<close>

definition ex_m1 :: ChatMessage where
  "ex_m1 = \<lparr>msg_id = js ''m1'', content = js ''hi'', role = User, timestamp = 1, isError = None\<rparr>"

definition ex_m2 :: ChatMessage where
  "ex_m2 = \<lparr>msg_id = js ''m2'', content = js ''hello'', role = Assistant, timestamp = 2,
            isError = None\<rparr>"

definition ex_m3 :: ChatMessage where
  "ex_m3 = \<lparr>msg_id = js ''m3'', content = js ''more'', role = User, timestamp = 3, isError = None\<rparr>"

definition ex_m4 :: ChatMessage where
  "ex_m4 = \<lparr>msg_id = js ''m4'', content = js ''sure'', role = Assistant, timestamp = 4,
            isError = None\<rparr>"

definition ex_session_a :: ChatSession where
  "ex_session_a = \<lparr>sess_id = js ''a'', title = js ''Greeting'',
                   messages = [ex_m1, ex_m2, ex_m3, ex_m4], createdAt = 0, lastModified = 4,
                   settings = None\<rparr>"

definition ex_session_b :: ChatSession where
  "ex_session_b = \<lparr>sess_id = js ''b'', title = js ''New Chat'', messages = [], createdAt = 5,
                   lastModified = 5, settings = None\<rparr>"

definition ex_provider :: ApiProviderConfig where
  "ex_provider = \<lparr>cfg_id = js ''p1'', providerId = js ''openai'', cfg_name = js ''key'',
                  apiKey = js ''sk'', baseUrl = None, status = unknown, lastTested = None\<rparr>"

definition ex_state :: AppState where
  "ex_state =
     \<lparr>input = [], sessions = [ex_session_b, ex_session_a], activeSessionId = Some (js ''a''),
      isLoading = False, isChatSettingsModalOpen = False, editingMessageId = None,
      appSettings = \<lparr>defaultChatSettings = DEFAULT_CHAT_SETTINGS, apiProviders = [ex_provider],
                     sendWithEnter = True, uiDensity = comfortable\<rparr>,
      isConfirmModalOpen = False, confirmModalProps = None, abortControllerRef = None,
      controllers = [], toasts = []\<rparr>"

text \<open>The same state with no provider configured.\<close>

definition ex_state_nokey :: AppState where
  "ex_state_nokey =
     ex_state\<lparr>appSettings := \<lparr>defaultChatSettings = DEFAULT_CHAT_SETTINGS, apiProviders = [],
                               sendWithEnter = True, uiDensity = comfortable\<rparr>\<rparr>"

text \<open>
  The state right after \<open>performAICall\<close> has started a generation for session
  \<open>a\<close> in \<open>ex_state\<close>, and the suspended call.
\<close>

definition ex_call :: AICall where
  "ex_call = \<lparr>call_prompt = js ''more'', call_settings = DEFAULT_CHAT_SETTINGS,
              call_apiKey = Some (js ''sk''), call_baseUrl = None, call_signal = 0,
              call_sessionId = js ''a''\<rparr>"

definition ex_state_loading :: AppState where
  "ex_state_loading =
     ex_state\<lparr>isLoading := True, controllers := [False], abortControllerRef := Some 0\<rparr>"



text \<open>
  The state after a second generation for session \<open>a\<close> has been started by an edit
  while the one of \<open>ex_call\<close> is still waiting: the ref now holds the second
  controller.
\<close>

definition ex_call2 :: AICall where
  "ex_call2 = \<lparr>call_prompt = js ''hey'', call_settings = DEFAULT_CHAT_SETTINGS,
               call_apiKey = Some (js ''sk''), call_baseUrl = None, call_signal = 1,
               call_sessionId = js ''a''\<rparr>"


text \<open>
  The states after the deletion of session \<open>a\<close> has been asked for and confirmed:
  in \<open>ex_state_loading\<close>, in the state with the dialog opened before the generation
  started, and in the state with two generations.
\<close>

definition ex_state_deleted :: AppState where
  "ex_state_deleted =
     handleConfirmClick (handleDeleteChat (js ''a'') [ex_session_b, ex_session_a] ex_state_loading)"



text \<open>
  A state in which the user has changed the global default model to \<open>gpt-4o\<close> and
  session \<open>a\<close> carries an override with another model.
\<close>

definition ex_global_defaults :: ChatSettings where
  "ex_global_defaults = DEFAULT_CHAT_SETTINGS\<lparr>model := js ''gpt-4o''\<rparr>"

definition ex_state_override :: AppState where
  "ex_state_override =
     ex_state\<lparr>sessions :=
                [ex_session_b,
                 ex_session_a\<lparr>settings := Some (DEFAULT_CHAT_SETTINGS\<lparr>model := js ''gpt-4-turbo''\<rparr>)\<rparr>],
              appSettings :=
                \<lparr>defaultChatSettings = ex_global_defaults, apiProviders = [ex_provider],
                 sendWithEnter = True, uiDensity = comfortable\<rparr>\<rparr>"

section \<open>Auxiliary facts\<close>

lemmas ex_defs = ex_m1_def ex_m2_def ex_m3_def ex_m4_def ex_session_a_def ex_session_b_def
  ex_provider_def ex_state_def ex_state_nokey_def ex_call_def ex_state_loading_def
  ex_global_defaults_def ex_state_override_def

lemmas config_defs = getProviderIdFromModel_def findModelById_def getAllModels_def
  MODEL_PROVIDERS_def toLowerCase_def getProviderForKey_def DEFAULT_CHAT_SETTINGS_def
  DEFAULT_MODEL_ID_def

lemma ex_begin:
  "performAICall_begin (js ''more'') ex_session_a ex_state = (ex_state_loading, Some ex_call)"
  by (simp add: performAICall_begin_def settingsToUse_def apiProviderConfig_def ex_defs
      config_defs)

lemma ex_in_flight: "in_flight ex_call ex_state_loading"
  by (simp add: in_flight_def ex_defs)

lemma map_messages_add:
  "sid \<noteq> [] \<Longrightarrow>
     map messages (addMessageToActiveSession m sid now prev) =
     map (\<lambda>s. if sess_id s = sid then messages s @ [m] else messages s) prev"
  by (simp add: addMessageToActiveSession_def)

lemma begin_Some:
  assumes "performAICall_begin prompt sess st = (st1, Some call)"
  shows "call_sessionId call = sess_id sess"
    and "call_apiKey call \<noteq> None" and "call_apiKey call \<noteq> Some []"
    and "call_signal call = length (controllers st)"
    and "st1 = st\<lparr>isLoading := True, controllers := controllers st @ [False],
                  abortControllerRef := Some (length (controllers st))\<rparr>"
  using assms
  by (auto simp: performAICall_begin_def Let_def split: if_splits)

text \<open>A generation that \<open>performAICall\<close> has just started is in flight.\<close>

lemma begin_in_flight:
  assumes "performAICall_begin prompt sess st = (st1, Some call)"
  shows "in_flight call st1"
  using begin_Some(4,5)[OF assms] by (simp add: in_flight_def nth_append)

lemma sessions_resume:
  "sessions (performAICall_resume call outcome uuid now st) =
     (case outcome of
        Fulfilled reply \<Rightarrow>
          if signal_aborted st (call_signal call) then sessions st
          else addMessageToActiveSession (successMessage uuid now reply) (call_sessionId call)
                 now (sessions st)
      | Rejected ename emessage \<Rightarrow>
          addMessageToActiveSession (terminalMessage outcome uuid now) (call_sessionId call)
            now (sessions st))"
  by (simp add: performAICall_resume_def Let_def terminalMessage_def successMessage_def
      stoppedMessage_def errorMessage_def split: settled.splits)

lemma role_terminalMessage: "role (terminalMessage outcome uuid now) = Assistant"
  by (simp add: terminalMessage_def successMessage_def stoppedMessage_def errorMessage_def
      split: settled.splits)

text \<open>
  Once the signal is aborted, the backend of the source rejects with \<open>AbortError\<close>,
  whichever event ends its wait.
\<close>

lemma backend_outcome_aborted:
  assumes "call_apiKey call \<noteq> None" "call_apiKey call \<noteq> Some []"
    and "signal_aborted st (call_signal call)"
  shows "backend_outcome call w variation st = Rejected (js ''AbortError'') (js ''Aborted'')"
  using assms by (simp add: backend_outcome_def simulateAIResponse_def split: wake.splits)

lemma findIndex_Some: "findIndex p xs = Some i \<Longrightarrow> i < length xs \<and> p (xs ! i)"
  by (induction xs arbitrary: i) (auto split: if_splits)

lemma map_edit_distinct:
  assumes "distinct (map msg_id ms)" and "i < length ms" and "msg_id (ms ! i) = mid"
  shows "map (\<lambda>m. if msg_id m = mid then f m else m) ms = ms[i := f (ms ! i)]"
proof (rule nth_equalityI)
  show "length (map (\<lambda>m. if msg_id m = mid then f m else m) ms) = length (ms[i := f (ms ! i)])"
    by simp
next
  fix j assume "j < length (map (\<lambda>m. if msg_id m = mid then f m else m) ms)"
  then have j: "j < length ms" by simp
  show "map (\<lambda>m. if msg_id m = mid then f m else m) ms ! j = ms[i := f (ms ! i)] ! j"
  proof (cases "j = i")
    case True
    with assms show ?thesis by simp
  next
    case False
    have "msg_id (ms ! j) \<noteq> mid"
      using nth_eq_iff_index_eq[OF assms(1), of j i] assms(2,3) j False by simp
    with False j show ?thesis by simp
  qed
qed

lemma saveEdit_session_other:
  "sess_id x \<noteq> a \<Longrightarrow> saveEdit_session a mid tc now v x = (x, v)"
  by (simp add: saveEdit_session_def)

lemma saveEdit_map_other:
  "\<forall>x \<in> set ss. sess_id x \<noteq> a \<Longrightarrow> saveEdit_map a mid tc now v ss = (ss, v)"
  by (induction ss arbitrary: v) (simp_all add: saveEdit_session_other)

lemma saveEdit_map_single:
  assumes "\<forall>x \<in> set pre \<union> set post. sess_id x \<noteq> a"
  shows "saveEdit_map a mid tc now v (pre @ s # post) =
     (pre @ fst (saveEdit_session a mid tc now v s) # post,
      snd (saveEdit_session a mid tc now v s))"
  using assms
proof (induction pre)
  case Nil
  then show ?case
    by (simp add: saveEdit_map_other split: prod.splits)
next
  case (Cons x pre)
  then show ?case
    by (simp add: saveEdit_session_other)
qed

lemma saveEdit_session_found:
  assumes "sess_id s = a"
    and "findIndex (\<lambda>m. msg_id m = mid) (messages s) = Some i"
    and "distinct (map msg_id (messages s))"
  shows "saveEdit_session a mid tc now
           \<lparr>requiresRegeneration = False, userPromptForRegen = [], sessionAfterUpdate = None\<rparr> s =
     (let edited = (messages s ! i)\<lparr>content := tc, timestamp := now\<rparr>;
          changed = (content (messages s ! i) \<noteq> tc \<and> role (messages s ! i) = User);
          regen = (changed \<and> i + 1 < length (messages s));
          s' = s\<lparr>messages := (if regen then take i (messages s) @ [edited]
                                else (messages s)[i := edited]),
                 lastModified := now\<rparr>
      in (s', \<lparr>requiresRegeneration = regen,
               userPromptForRegen = (if changed then tc else []),
               sessionAfterUpdate = Some s'\<rparr>))"
proof -
  from findIndex_Some[OF assms(2)] have i: "i < length (messages s)" "msg_id (messages s ! i) = mid"
    by simp_all
  have m: "map (\<lambda>m. if msg_id m = mid then m\<lparr>content := tc, timestamp := now\<rparr> else m) (messages s)
      = (messages s)[i := (messages s ! i)\<lparr>content := tc, timestamp := now\<rparr>]"
    by (rule map_edit_distinct[OF assms(3) i])
  have t: "take (Suc i) ((messages s)[i := e]) = take i (messages s) @ [e]" for e
    using i(1) by (simp add: take_Suc_conv_app_nth)
  have lt: "(int i < int (length (messages s)) - 1) = (Suc i < length (messages s))"
    by linarith
  show ?thesis
    unfolding saveEdit_session_def
    by (simp add: assms(1,2) m t lt Let_def)
qed

text \<open>
  What \<open>handleSaveEdit\<close> does when the trimmed content is not empty, the active
  session occurs once in the collection and the message is found in it at index
  \<open>i\<close> (message ids being distinct): the message gets the trimmed content and a new
  timestamp whatever its role; the messages after it are dropped exactly when it is a
  user message whose content changed and it is not the last one; and a regeneration is
  requested exactly when, in addition, the updater ran at the call.
\<close>

lemma handleSaveEdit_update_found:
  assumes "activeSessionId st = Some a" and "a \<noteq> []"
    and "sessions st = pre @ s # post"
    and "sess_id s = a" and "\<forall>x \<in> set pre \<union> set post. sess_id x \<noteq> a"
    and "findIndex (\<lambda>m. msg_id m = messageId) (messages s) = Some i"
    and "distinct (map msg_id (messages s))"
    and "trim newContent \<noteq> []"
  shows "handleSaveEdit_update e messageId newContent now st =
     (let tc = trim newContent;
          edited = (messages s ! i)\<lparr>content := tc, timestamp := now\<rparr>;
          regen = (content (messages s ! i) \<noteq> tc \<and> role (messages s ! i) = User \<and>
                   i + 1 < length (messages s));
          s' = s\<lparr>messages := (if regen then take i (messages s) @ [edited]
                                else (messages s)[i := edited]),
                 lastModified := now\<rparr>
      in (st\<lparr>sessions := pre @ s' # post, editingMessageId := None,
             toasts := toasts st @ [ToastSuccess (js ''Message updated'')]\<rparr>,
          if e \<and> regen then Some (tc, s') else None))"
  unfolding handleSaveEdit_update_def
  by (simp add: assms(1,2,3,8) saveEdit_map_single[OF assms(5)]
      saveEdit_session_found[OF assms(4,6,7)] Let_def)

text \<open>An edit whose trimmed content is empty changes nothing.\<close>

lemma handleSaveEdit_empty:
  "trim newContent = [] \<Longrightarrow> handleSaveEdit e messageId newContent now st = (st, None)"
  by (simp add: handleSaveEdit_def handleSaveEdit_update_def split: option.splits)

lemma ex_edit_hyps:
  "activeSessionId ex_state = Some (js ''a'')" "js ''a'' \<noteq> []"
  "sessions ex_state = [ex_session_b] @ ex_session_a # []"
  "sess_id ex_session_a = js ''a''"
  "\<forall>x \<in> set [ex_session_b] \<union> set []. sess_id x \<noteq> js ''a''"
  "distinct (map msg_id (messages ex_session_a))"
  "messages ex_session_a = [ex_m1, ex_m2, ex_m3, ex_m4]"
  by (simp_all add: ex_state_def ex_session_a_def ex_session_b_def ex_m1_def ex_m2_def ex_m3_def
      ex_m4_def)

lemmas edit_defs = handleSaveEdit_def handleSaveEdit_update_def saveEdit_session_def trim_def
  is_js_space_def

lemmas settings_defs = handleSaveChanges_def handleSaveChatSettings_def handleResetChatSettings_def
  handleReset_def isUsingDefaultSettings_def activeSession_def JSON_stringify_def

lemma controllers_handleSaveEdit_update:
  "controllers (fst (handleSaveEdit_update e m c now st)) = controllers st"
  by (simp add: handleSaveEdit_update_def Let_def split: option.splits prod.splits)

text \<open>
  No handler of the model ever clears the flag of a signal: \<open>abort\<close> is the only
  operation that writes the store, and it writes \<open>True\<close>.
\<close>

lemma nth_update_True: "c < length xs \<Longrightarrow> xs ! c \<Longrightarrow> xs[k := True] ! c"
  by (cases "c = k") auto

lemma signal_aborted_kept:
  assumes "signal_aborted st c"
  shows "signal_aborted (abort c' st) c"
    and "signal_aborted (handleStopGenerating st) c"
    and "signal_aborted (handleSelectChat i st) c"
    and "signal_aborted (handleDeleteChat i ms st) c"
    and "signal_aborted (handleConfirmClick st) c"
    and "signal_aborted (handleDeleteMessage m now st) c"
    and "signal_aborted (fst (performAICall_begin p s st)) c"
    and "signal_aborted (performAICall_resume call outcome uuid now st) c"
    and "signal_aborted (handleSaveChanges t now st) c"
proof -
  have a: "signal_aborted (abort k st) c" for k
    using assms by (auto simp: abort_def signal_aborted_def nth_update_True)
  show "signal_aborted (abort c' st) c" by (rule a)
  show "signal_aborted (handleStopGenerating st) c"
    using assms a by (simp add: handleStopGenerating_def split: option.splits)
  show "signal_aborted (handleSelectChat i st) c"
    using assms by (auto simp: handleSelectChat_def Let_def abort_def signal_aborted_def
        nth_update_True split: option.splits)
  show "signal_aborted (handleDeleteChat i ms st) c"
    using assms by (simp add: handleDeleteChat_def openConfirmation_def Let_def signal_aborted_def)
  show "signal_aborted (handleConfirmClick st) c"
  proof (cases "confirmModalProps st")
    case None
    with assms show ?thesis by (simp add: handleConfirmClick_def signal_aborted_def)
  next
    case (Some pr)
    obtain i a l t where "cm_onConfirm pr = DeleteChatClosure i a l t"
      by (cases "cm_onConfirm pr") auto
    with Some assms show ?thesis
      by (auto simp: handleConfirmClick_def Let_def abort_def signal_aborted_def nth_update_True
          split: option.splits)
  qed
  show "signal_aborted (handleDeleteMessage m now st) c"
    using assms by (simp add: handleDeleteMessage_def signal_aborted_def split: option.splits)
  show "signal_aborted (fst (performAICall_begin p s st)) c"
    using assms by (simp add: performAICall_begin_def Let_def signal_aborted_def nth_append)
  show "signal_aborted (performAICall_resume call outcome uuid now st) c"
    using assms
    by (simp add: performAICall_resume_def Let_def signal_aborted_def split: settled.splits)
  show "signal_aborted (handleSaveChanges t now st) c"
    using assms
    by (simp add: handleSaveChanges_def handleSaveChatSettings_def handleReset_def
        handleResetChatSettings_def Let_def signal_aborted_def split: option.splits)
qed

lemma signal_aborted_kept_edit:
  assumes "signal_aborted st c"
  shows "signal_aborted (fst (handleSaveEdit e m content' now st)) c"
proof -
  have u: "signal_aborted (fst (handleSaveEdit_update e m content' now st)) c"
    using assms controllers_handleSaveEdit_update[of e m content' now st]
    by (simp add: signal_aborted_def)
  show ?thesis
  proof (cases "handleSaveEdit_update e m content' now st")
    case (Pair st1 r)
    with u have s1: "signal_aborted st1 c" by simp
    show ?thesis
    proof (cases r)
      case None
      with Pair s1 show ?thesis by (simp add: handleSaveEdit_def)
    next
      case (Some ps)
      obtain prompt sess where "ps = (prompt, sess)" by (cases ps)
      with Pair Some signal_aborted_kept(7)[OF s1, of prompt sess] show ?thesis
        by (simp add: handleSaveEdit_def)
    qed
  qed
qed

text \<open>The concrete states, evaluated.\<close>

lemmas run_defs = performAICall_begin_def settingsToUse_def apiProviderConfig_def
  handleDeleteChat_def openConfirmation_def handleConfirmClick_def abort_def Let_def



lemma ex_calls:
  "call_sessionId ex_call = js ''a''" "call_signal ex_call = 0"
  "call_sessionId ex_call2 = js ''a''" "call_signal ex_call2 = 1"
  by (simp_all add: ex_call_def ex_call2_def)





lemma ex_deleted_facts:
  "sessions ex_state_deleted = [ex_session_b]" "controllers ex_state_deleted = [True]"
  "activeSessionId ex_state_deleted = None"
  by (simp_all add: ex_state_deleted_def run_defs ex_state_loading_def ex_state_def
      ex_session_a_def ex_session_b_def)


text \<open>The two ways \<open>performAICall\<close> can begin, written out.\<close>

lemma performAICall_begin_key:
  assumes "map_option apiKey (apiProviderConfig sess st) = Some k" and "k \<noteq> []"
  shows "performAICall_begin prompt sess st =
     (st\<lparr>isLoading := True, controllers := controllers st @ [False],
         abortControllerRef := Some (length (controllers st))\<rparr>,
      Some \<lparr>call_prompt = prompt, call_settings = settingsToUse sess st,
            call_apiKey = Some k, call_baseUrl = Option.bind (apiProviderConfig sess st) baseUrl,
            call_signal = length (controllers st), call_sessionId = sess_id sess\<rparr>)"
  using assms by (auto simp: performAICall_begin_def Let_def)

lemma performAICall_begin_nokey:
  assumes "map_option apiKey (apiProviderConfig sess st) = None \<or>
           map_option apiKey (apiProviderConfig sess st) = Some []"
  shows "\<exists>t. performAICall_begin prompt sess st = (st\<lparr>toasts := toasts st @ [ToastError t]\<rparr>, None)"
proof -
  have "performAICall_begin prompt sess st =
     (st\<lparr>toasts := toasts st @
                  [ToastError (js ''API Config for '' @ [39]
                     @ (case getProviderIdFromModel (model (settingsToUse sess st)) of
                          None \<Rightarrow> js ''unknown''
                        | Some p \<Rightarrow> if p = [] then js ''unknown'' else p)
                     @ [39] @ js '' not found or key missing.'')]\<rparr>, None)"
    using assms unfolding performAICall_begin_def Let_def by (simp only: if_True)
  then show ?thesis by blast
qed

lemma credential_cong:
  assumes "settings s' = settings s" and "appSettings st' = appSettings st"
  shows "apiProviderConfig s' st' = apiProviderConfig s st"
    and "settingsToUse s' st' = settingsToUse s st"
proof -
  show u: "settingsToUse s' st' = settingsToUse s st"
    using assms by (simp add: settingsToUse_def split: option.splits)
  show "apiProviderConfig s' st' = apiProviderConfig s st"
    by (simp add: apiProviderConfig_def u assms(2))
qed

section \<open>Generation lifecycle\<close>

text \<open>
  C1, as the code has it. The claim is that every \<open>performAICall\<close> appends exactly one
  terminal assistant message, and an error message when no credential resolves. When no
  key resolves (no provider configuration for the model, or one with an empty key) the
  code returns before creating a controller or calling the backend, emits one error
  toast and appends nothing. When a key resolves, the call is suspended, and for every
  outcome of the awaited call other than a fulfilment that arrives with the signal
  already aborted, the continuation appends exactly one assistant message, the terminal
  message of that outcome, to every session of the collection whose id is the id of the
  session passed to the call (the id being non-empty), and changes the messages of no
  other session. The backend of the source never fulfils once the signal is aborted.
\<close>

theorem performAICall_terminal_message:
  "((map_option apiKey (apiProviderConfig sess st) = None \<or>
     map_option apiKey (apiProviderConfig sess st) = Some []) \<longrightarrow>
      snd (performAICall_begin prompt sess st) = None \<and>
      sessions (fst (performAICall_begin prompt sess st)) = sessions st \<and>
      controllers (fst (performAICall_begin prompt sess st)) = controllers st \<and>
      (\<exists>t. toasts (fst (performAICall_begin prompt sess st)) = toasts st @ [ToastError t]))
   \<and> (performAICall_begin prompt sess st = (st1, Some call) \<and> sess_id sess \<noteq> [] \<and>
       (\<forall>reply. outcome = Fulfilled reply \<longrightarrow> \<not> signal_aborted st2 (call_signal call)) \<longrightarrow>
         role (terminalMessage outcome uuid now) = Assistant \<and>
         map messages (sessions (performAICall_resume call outcome uuid now st2)) =
         map (\<lambda>s. if sess_id s = sess_id sess
                   then messages s @ [terminalMessage outcome uuid now] else messages s)
             (sessions st2))
   \<and> (\<forall>reply. backend_outcome call w variation st2 = Fulfilled reply \<longrightarrow>
         \<not> signal_aborted st2 (call_signal call))"
proof (intro conjI impI)
  assume "map_option apiKey (apiProviderConfig sess st) = None \<or>
     map_option apiKey (apiProviderConfig sess st) = Some []"
  then have *: "performAICall_begin prompt sess st =
     (st\<lparr>toasts := toasts st @
                  [ToastError (js ''API Config for '' @ [39]
                     @ (case getProviderIdFromModel (model (settingsToUse sess st)) of
                          None \<Rightarrow> js ''unknown''
                        | Some p \<Rightarrow> if p = [] then js ''unknown'' else p)
                     @ [39] @ js '' not found or key missing.'')]\<rparr>, None)"
    unfolding performAICall_begin_def Let_def by (simp only: if_True)
  show "snd (performAICall_begin prompt sess st) = None" by (simp add: *)
  show "sessions (fst (performAICall_begin prompt sess st)) = sessions st" by (simp add: *)
  show "controllers (fst (performAICall_begin prompt sess st)) = controllers st" by (simp add: *)
  show "\<exists>t. toasts (fst (performAICall_begin prompt sess st)) = toasts st @ [ToastError t]"
    by (simp add: *)
next
  show "role (terminalMessage outcome uuid now) = Assistant" by (rule role_terminalMessage)
next
  assume a: "performAICall_begin prompt sess st = (st1, Some call) \<and> sess_id sess \<noteq> [] \<and>
       (\<forall>reply. outcome = Fulfilled reply \<longrightarrow> \<not> signal_aborted st2 (call_signal call))"
  then have sid: "call_sessionId call = sess_id sess" using begin_Some(1) by blast
  show "map messages (sessions (performAICall_resume call outcome uuid now st2)) =
         map (\<lambda>s. if sess_id s = sess_id sess
                   then messages s @ [terminalMessage outcome uuid now] else messages s)
             (sessions st2)"
  proof (cases outcome)
    case (Fulfilled reply)
    with a have "\<not> signal_aborted st2 (call_signal call)" by blast
    with Fulfilled a sid show ?thesis
      by (simp add: sessions_resume map_messages_add terminalMessage_def)
  next
    case (Rejected ename emessage)
    with a sid show ?thesis
      by (simp add: sessions_resume map_messages_add)
  qed
next
  show "\<forall>reply. backend_outcome call w variation st2 = Fulfilled reply \<longrightarrow>
         \<not> signal_aborted st2 (call_signal call)"
    by (auto simp: backend_outcome_def simulateAIResponse_def Let_def split: if_splits wake.splits)
qed

text \<open>
  C1 as stated fails: with no provider configured, \<open>performAICall\<close> for session
  \<open>a\<close> suspends no call and leaves the sessions as they are, so no message, and no
  error message in particular, is appended.
\<close>

theorem performAICall_no_credential_counterexample:
  "snd (performAICall_begin (js ''more'') ex_session_a ex_state_nokey) = None \<and>
   sessions (fst (performAICall_begin (js ''more'') ex_session_a ex_state_nokey)) =
     sessions ex_state_nokey"
  by (simp add: performAICall_begin_def settingsToUse_def apiProviderConfig_def ex_defs config_defs)

theorem performAICall_terminal_message_witness:
  "map_option apiKey (apiProviderConfig ex_session_a ex_state_nokey) = None \<and>
   snd (performAICall_begin (js ''more'') ex_session_a ex_state_nokey) = None \<and>
   performAICall_begin (js ''more'') ex_session_a ex_state = (ex_state_loading, Some ex_call) \<and>
   map messages (sessions (performAICall_resume ex_call (Fulfilled (js ''ok'')) (js ''u1'') 9
                             ex_state_loading)) =
     [[], [ex_m1, ex_m2, ex_m3, ex_m4, successMessage (js ''u1'') 9 (js ''ok'')]]"
proof -
  have h1: "map_option apiKey (apiProviderConfig ex_session_a ex_state_nokey) = None"
    by (simp add: apiProviderConfig_def ex_defs)
  have h2: "performAICall_begin (js ''more'') ex_session_a ex_state = (ex_state_loading, Some ex_call)"
    by (rule ex_begin)
  have h3: "sess_id ex_session_a \<noteq> []" by (simp add: ex_defs)
  have h4: "\<forall>reply. Fulfilled (js ''ok'') = Fulfilled reply \<longrightarrow>
              \<not> signal_aborted ex_state_loading (call_signal ex_call)"
    by (simp add: signal_aborted_def ex_defs)
  have c1: "snd (performAICall_begin (js ''more'') ex_session_a ex_state_nokey) = None"
    using performAICall_terminal_message
      [where sess = ex_session_a and st = ex_state_nokey and prompt = "js ''more''"] h1
    by blast
  have c2: "map messages (sessions (performAICall_resume ex_call (Fulfilled (js ''ok''))
                (js ''u1'') 9 ex_state_loading)) =
         map (\<lambda>s. if sess_id s = sess_id ex_session_a
                   then messages s @ [terminalMessage (Fulfilled (js ''ok'')) (js ''u1'') 9]
                   else messages s)
             (sessions ex_state_loading)"
    using performAICall_terminal_message
      [where sess = ex_session_a and st = ex_state and prompt = "js ''more''"
         and ?st1.0 = ex_state_loading and call = ex_call and outcome = "Fulfilled (js ''ok'')"
         and ?st2.0 = ex_state_loading and uuid = "js ''u1''" and now = 9] h2 h3 h4
    by blast
  have c3: "map (\<lambda>s. if sess_id s = sess_id ex_session_a
                   then messages s @ [terminalMessage (Fulfilled (js ''ok'')) (js ''u1'') 9]
                   else messages s)
             (sessions ex_state_loading) =
     [[], [ex_m1, ex_m2, ex_m3, ex_m4, successMessage (js ''u1'') 9 (js ''ok'')]]"
    by (simp add: ex_state_loading_def ex_state_def ex_session_a_def ex_session_b_def
        terminalMessage_def)
  from h1 h2 c1 c2 c3 show ?thesis by simp
qed

text \<open>
  C2, as the code has it. The claim is that every cancelled generation appends exactly
  one stopped message to its session. Take a generation that \<open>performAICall\<close> has
  started for a session with a non-empty id, in flight in some state.
  \<open>handleStopGenerating\<close> aborts its signal and appends nothing itself. In every state
  where the signal is aborted, whichever event ends the wait of the backend, the
  continuation appends exactly one message, the stopped message (an assistant message
  with \<open>isError\<close> true and the content \<open>Generation stopped.\<close>), to each session of
  the collection that carries the call's session id, and so to none when that session is
  no longer there; the signal stays aborted afterwards (no handler clears it, see
  \<open>signal_aborted_kept\<close>); and a fulfilment delivered to the call in such a state
  appends nothing at all, so no success message follows.
\<close>

theorem cancel_appends_stopped_message:
  assumes "performAICall_begin prompt sess st0 = (st1, Some call)"
    and "in_flight call st"
    and "sess_id sess \<noteq> []"
  shows "signal_aborted (handleStopGenerating st) (call_signal call) \<and>
     sessions (handleStopGenerating st) = sessions st \<and>
     (\<forall>st'. signal_aborted st' (call_signal call) \<longrightarrow>
        map messages (sessions (performAICall_resume call (backend_outcome call w variation st')
                                  uuid now st')) =
        map (\<lambda>s. if sess_id s = sess_id sess
                  then messages s @ [stoppedMessage uuid now] else messages s) (sessions st') \<and>
        (\<forall>reply uuid' now'.
           sessions (performAICall_resume call (Fulfilled reply) uuid' now' st') = sessions st') \<and>
        signal_aborted (performAICall_resume call (backend_outcome call w variation st')
                          uuid now st') (call_signal call)) \<and>
     role (stoppedMessage uuid now) = Assistant \<and>
     isError (stoppedMessage uuid now) = Some True \<and>
     content (stoppedMessage uuid now) = js ''Generation stopped.''"
proof -
  note b = begin_Some[OF assms(1)]
  have stop: "handleStopGenerating st = abort (call_signal call) st"
    using assms(2) by (simp add: handleStopGenerating_def in_flight_def)
  have 1: "signal_aborted (handleStopGenerating st) (call_signal call)"
    using assms(2) by (simp add: stop abort_def signal_aborted_def in_flight_def)
  have 2: "sessions (handleStopGenerating st) = sessions st"
    by (simp add: stop abort_def)
  have 3: "map messages (sessions (performAICall_resume call (backend_outcome call w variation st')
                                  uuid now st')) =
        map (\<lambda>s. if sess_id s = sess_id sess
                  then messages s @ [stoppedMessage uuid now] else messages s) (sessions st')"
    if "signal_aborted st' (call_signal call)" for st'
    using backend_outcome_aborted[OF b(2) b(3) that] b(1) assms(3)
    by (simp add: sessions_resume map_messages_add terminalMessage_def)
  have 4: "sessions (performAICall_resume call (Fulfilled reply) uuid' now' st') = sessions st'"
    if "signal_aborted st' (call_signal call)" for st' reply uuid' now'
    using that by (simp add: sessions_resume)
  have 5: "signal_aborted (performAICall_resume call outcome uuid now st') (call_signal call)"
    if "signal_aborted st' (call_signal call)" for st' outcome
    using that
    by (simp add: performAICall_resume_def Let_def signal_aborted_def split: settled.splits)
  show ?thesis
    using 1 2 3 4 5 by (simp add: stoppedMessage_def)
qed

theorem cancel_appends_stopped_message_witness:
  "performAICall_begin (js ''more'') ex_session_a ex_state = (ex_state_loading, Some ex_call) \<and>
   in_flight ex_call ex_state_loading \<and> sess_id ex_session_a \<noteq> [] \<and>
   signal_aborted (handleStopGenerating ex_state_loading) (call_signal ex_call) \<and>
   map messages
     (sessions (performAICall_resume ex_call
        (backend_outcome ex_call AbortEvent [] (handleStopGenerating ex_state_loading))
        (js ''u1'') 9 (handleStopGenerating ex_state_loading))) =
     [[], [ex_m1, ex_m2, ex_m3, ex_m4, stoppedMessage (js ''u1'') 9]]"
proof -
  have h3: "sess_id ex_session_a \<noteq> []" by (simp add: ex_defs)
  note t = cancel_appends_stopped_message[OF ex_begin ex_in_flight h3,
      where w = AbortEvent and variation = "[]" and uuid = "js ''u1''" and now = 9]
  from t have a: "signal_aborted (handleStopGenerating ex_state_loading) (call_signal ex_call)"
    by blast
  from t a have "map messages
     (sessions (performAICall_resume ex_call
        (backend_outcome ex_call AbortEvent [] (handleStopGenerating ex_state_loading))
        (js ''u1'') 9 (handleStopGenerating ex_state_loading))) =
     map (\<lambda>s. if sess_id s = sess_id ex_session_a
               then messages s @ [stoppedMessage (js ''u1'') 9] else messages s)
       (sessions (handleStopGenerating ex_state_loading))"
    by blast
  moreover have "sessions (handleStopGenerating ex_state_loading) = [ex_session_b, ex_session_a]"
    using t by (simp add: ex_state_loading_def ex_state_def)
  moreover have "sess_id ex_session_b \<noteq> sess_id ex_session_a" "messages ex_session_b = []"
    "messages ex_session_a = [ex_m1, ex_m2, ex_m3, ex_m4]"
    by (simp_all add: ex_session_a_def ex_session_b_def)
  ultimately show ?thesis
    using ex_begin ex_in_flight h3 a by simp
qed

text \<open>
  C2 as stated fails: the generation started for session \<open>a\<close> is cancelled by
  deleting session \<open>a\<close>, which aborts its signal and removes the session. When the
  backend then rejects, the collection is still the one remaining session with its empty
  message list: no stopped message has been appended anywhere.
\<close>

theorem cancel_by_delete_counterexample:
  "performAICall_begin (js ''more'') ex_session_a ex_state = (ex_state_loading, Some ex_call) \<and>
   in_flight ex_call ex_state_loading \<and>
   signal_aborted ex_state_deleted (call_signal ex_call) \<and>
   sessions ex_state_deleted = [ex_session_b] \<and>
   sessions (performAICall_resume ex_call
      (backend_outcome ex_call AbortEvent [] ex_state_deleted) (js ''u1'') 9 ex_state_deleted) =
     [ex_session_b] \<and>
   messages ex_session_b = []"
proof -
  have ab: "signal_aborted ex_state_deleted (call_signal ex_call)"
    by (simp add: signal_aborted_def ex_deleted_facts ex_calls)
  have "sessions (performAICall_resume ex_call
          (backend_outcome ex_call AbortEvent [] ex_state_deleted) (js ''u1'') 9 ex_state_deleted) =
        addMessageToActiveSession
          (terminalMessage (backend_outcome ex_call AbortEvent [] ex_state_deleted) (js ''u1'') 9)
          (call_sessionId ex_call) 9 [ex_session_b]"
    by (simp add: sessions_resume ex_deleted_facts backend_outcome_def simulateAIResponse_def
        ex_call_def)
  then have r: "sessions (performAICall_resume ex_call
          (backend_outcome ex_call AbortEvent [] ex_state_deleted) (js ''u1'') 9 ex_state_deleted) =
       [ex_session_b]"
    by (simp add: addMessageToActiveSession_def ex_session_b_def ex_call_def)
  have "messages ex_session_b = []" by (simp add: ex_session_b_def)
  with ex_begin ex_in_flight ab ex_deleted_facts(1) r show ?thesis by simp
qed

section \<open>Session selection and deletion\<close>

text \<open>
  C7, as the code has it. The claim is that selecting another session cancels the
  generation in flight and that selecting the session the generation is bound to never
  cancels it. \<open>handleSelectChat\<close> does not look at the id it is given before it
  aborts: while a generation is in flight, selecting any session, the one the generation
  is bound to included, aborts its signal and clears \<open>isLoading\<close>, then makes that
  session the active one; the sessions are not touched.
\<close>

theorem select_cancels_generation:
  "in_flight call st \<Longrightarrow>
     signal_aborted (handleSelectChat i st) (call_signal call) \<and>
     isLoading (handleSelectChat i st) = False \<and>
     activeSessionId (handleSelectChat i st) = Some i \<and>
     sessions (handleSelectChat i st) = sessions st"
  by (simp add: handleSelectChat_def in_flight_def abort_def signal_aborted_def Let_def)

theorem select_cancels_generation_witness:
  "in_flight ex_call ex_state_loading \<and>
   signal_aborted (handleSelectChat (js ''b'') ex_state_loading) (call_signal ex_call) \<and>
   activeSessionId (handleSelectChat (js ''b'') ex_state_loading) = Some (js ''b'')"
  using select_cancels_generation[OF ex_in_flight, of "js ''b''"] ex_in_flight by simp

text \<open>
  C7 as stated fails: the generation started for session \<open>a\<close> is in flight, and
  selecting session \<open>a\<close> itself aborts its signal.
\<close>

theorem select_same_session_counterexample:
  "performAICall_begin (js ''more'') ex_session_a ex_state = (ex_state_loading, Some ex_call) \<and>
   call_sessionId ex_call = js ''a'' \<and>
   in_flight ex_call ex_state_loading \<and>
   signal_aborted (handleSelectChat (js ''a'') ex_state_loading) (call_signal ex_call)"
  using ex_begin ex_in_flight
  by (simp add: handleSelectChat_def abort_def signal_aborted_def Let_def ex_call_def
      ex_state_loading_def ex_state_def)




section \<open>Appending and titles\<close>

text \<open>
  C10. When no session of the collection has the given id,
  \<open>addMessageToActiveSession\<close> returns the collection unchanged: the message is
  dropped, no session is created or modified. The function is total, so nothing is
  raised.
\<close>

theorem addMessage_absent_session:
  "\<forall>s \<in> set prev. sess_id s \<noteq> sessionId \<Longrightarrow>
     addMessageToActiveSession message sessionId now prev = prev"
  by (simp add: addMessageToActiveSession_def map_idI)

theorem addMessage_absent_session_witness:
  "sess_id ex_session_b \<noteq> js ''gone'' \<and> sess_id ex_session_a \<noteq> js ''gone'' \<and>
   addMessageToActiveSession (stoppedMessage (js ''u1'') 9) (js ''gone'') 9
     [ex_session_b, ex_session_a] = [ex_session_b, ex_session_a]"
proof -
  have h: "\<forall>s \<in> set [ex_session_b, ex_session_a]. sess_id s \<noteq> js ''gone''"
    by (simp add: ex_session_a_def ex_session_b_def)
  from addMessage_absent_session[OF h] h show ?thesis by simp
qed

lemma length_newTitle: "length (newTitle c) \<le> 35"
  by (simp add: newTitle_def Let_def)

text \<open>
  C9, as the code has it. The claim caps the title at 32 code units plus a marker and
  gives \<open>Explain quantum computing in\<close> for the example. In the code,
  \<open>updateSessionTitleIfNeeded\<close> keeps the length of the collection and rewrites
  exactly the sessions with the given id whose title is \<open>New Chat\<close> or empty, giving
  them the derived title. The derived title is the join \<open>w\<close> of the first five pieces
  of the content: cut to its first 32 code units followed by \<open>...\<close> only when
  \<open>w\<close> is longer than 35, \<open>Chat\<close> when \<open>w\<close> is empty, and \<open>w\<close> itself
  otherwise. It is never longer than 35 code units. The example content yields
  \<open>Explain quantum computing in simple\<close>.
\<close>

theorem updateSessionTitle_derivation:
  "length (updateSessionTitleIfNeeded sid c now prev) = length prev \<and>
   (\<forall>i < length prev.
      updateSessionTitleIfNeeded sid c now prev ! i =
        (if sess_id (prev ! i) = sid \<and> (title (prev ! i) = js ''New Chat'' \<or> title (prev ! i) = [])
         then (prev ! i)\<lparr>title := newTitle c, lastModified := now\<rparr>
         else prev ! i)) \<and>
   (let w = join_sp (take 5 (split_ws c)) in
      newTitle c = (if length w > 35 then take 32 w @ js ''...''
                    else if w = [] then js ''Chat'' else w)) \<and>
   length (newTitle c) \<le> 35 \<and>
   newTitle (js ''Explain quantum computing in simple terms'') =
     js ''Explain quantum computing in simple''"
proof (intro conjI)
  show "length (updateSessionTitleIfNeeded sid c now prev) = length prev"
    by (simp add: updateSessionTitleIfNeeded_def)
  show "\<forall>i < length prev.
      updateSessionTitleIfNeeded sid c now prev ! i =
        (if sess_id (prev ! i) = sid \<and> (title (prev ! i) = js ''New Chat'' \<or> title (prev ! i) = [])
         then (prev ! i)\<lparr>title := newTitle c, lastModified := now\<rparr>
         else prev ! i)"
    by (simp add: updateSessionTitleIfNeeded_def)
  show "let w = join_sp (take 5 (split_ws c)) in
      newTitle c = (if length w > 35 then take 32 w @ js ''...''
                    else if w = [] then js ''Chat'' else w)"
    by (simp add: newTitle_def Let_def)
  show "length (newTitle c) \<le> 35" by (rule length_newTitle)
  show "newTitle (js ''Explain quantum computing in simple terms'') =
     js ''Explain quantum computing in simple''"
    by (simp add: newTitle_def split_ws_def is_js_space_def)
qed

text \<open>
  C9 as stated fails: on a session titled \<open>New Chat\<close> the example content does
  not yield \<open>Explain quantum computing in\<close>; the title has 35 code units, more
  than 32, and carries no marker.
\<close>

theorem updateSessionTitle_counterexample:
  "title ex_session_b = js ''New Chat'' \<and>
   title (hd (updateSessionTitleIfNeeded (js ''b'')
                (js ''Explain quantum computing in simple terms'') 9 [ex_session_b])) \<noteq>
     js ''Explain quantum computing in'' \<and>
   length (title (hd (updateSessionTitleIfNeeded (js ''b'')
                (js ''Explain quantum computing in simple terms'') 9 [ex_session_b]))) = 35"
  by (simp add: updateSessionTitleIfNeeded_def ex_session_b_def newTitle_def split_ws_def
      is_js_space_def)

theorem updateSessionTitle_derivation_witness:
  "(0::nat) < length [ex_session_b] \<and>
   updateSessionTitleIfNeeded (js ''b'') (js ''Explain quantum computing in simple terms'') 9
     [ex_session_b] ! 0 =
     ex_session_b\<lparr>title := js ''Explain quantum computing in simple'', lastModified := 9\<rparr>"
proof -
  note t = updateSessionTitle_derivation[of "js ''b''"
      "js ''Explain quantum computing in simple terms''" 9 "[ex_session_b]"]
  have h: "(0::nat) < length [ex_session_b]" by simp
  have c: "sess_id ([ex_session_b] ! 0) = js ''b'' \<and>
        (title ([ex_session_b] ! 0) = js ''New Chat'' \<or> title ([ex_session_b] ! 0) = [])"
    by (simp add: ex_session_b_def)
  from t h have "updateSessionTitleIfNeeded (js ''b'')
      (js ''Explain quantum computing in simple terms'') 9 [ex_session_b] ! 0 =
        (if sess_id ([ex_session_b] ! 0) = js ''b'' \<and>
            (title ([ex_session_b] ! 0) = js ''New Chat'' \<or> title ([ex_session_b] ! 0) = [])
         then ([ex_session_b] ! 0)\<lparr>title := newTitle (js ''Explain quantum computing in simple terms''),
                lastModified := 9\<rparr>
         else [ex_session_b] ! 0)"
    by blast
  moreover note c
  moreover from t have "newTitle (js ''Explain quantum computing in simple terms'') =
     js ''Explain quantum computing in simple''" by blast
  ultimately show ?thesis using h by simp
qed

section \<open>Editing messages\<close>

text \<open>
  C3, as the code has it. The claim is that every saved edit that changes a user
  message before the end of the session truncates the session and triggers exactly one
  generation. Let the trimmed content be non-empty, the active session occur once in the
  collection, with distinct message ids, and the edited message, found at index \<open>i\<close>,
  be a user message whose content differs from the trimmed new content. If it is not the
  last message and the updater of \<open>setSessions\<close> runs at the call, the session's
  messages become the messages before it followed by the edited message, and
  \<open>handleSaveEdit\<close> makes exactly one call of \<open>performAICall\<close>, with the trimmed
  content as prompt and the truncated session, in the state that already holds the
  truncated session. When a non-empty key resolves for the session's model, that call
  starts one generation: a new controller is created and tracked, \<open>isLoading\<close> is
  set, and the suspended call carries the trimmed content as prompt and the session's
  id. When no key resolves, it only adds an error toast and starts none. If the edited
  message is the last one, then, whenever the updater runs, only that message is replaced
  (content and timestamp) and no generation is requested.
\<close>

theorem edit_user_message_changed:
  assumes "activeSessionId st = Some a" and "a \<noteq> []"
    and "sessions st = pre @ s # post"
    and "sess_id s = a" and "\<forall>x \<in> set pre \<union> set post. sess_id x \<noteq> a"
    and "findIndex (\<lambda>m. msg_id m = messageId) (messages s) = Some i"
    and "distinct (map msg_id (messages s))"
    and "trim newContent \<noteq> []"
    and "role (messages s ! i) = User"
    and "content (messages s ! i) \<noteq> trim newContent"
  shows "(i + 1 < length (messages s) \<longrightarrow>
           (let tc = trim newContent;
                s' = s\<lparr>messages := take i (messages s) @
                          [(messages s ! i)\<lparr>content := tc, timestamp := now\<rparr>],
                        lastModified := now\<rparr>;
                st' = st\<lparr>sessions := pre @ s' # post, editingMessageId := None,
                         toasts := toasts st @ [ToastSuccess (js ''Message updated'')]\<rparr>
            in handleSaveEdit_update True messageId newContent now st = (st', Some (tc, s')) \<and>
               (\<forall>k. map_option apiKey (apiProviderConfig s st) = Some k \<and> k \<noteq> [] \<longrightarrow>
                  handleSaveEdit True messageId newContent now st =
                    (st'\<lparr>isLoading := True, controllers := controllers st @ [False],
                         abortControllerRef := Some (length (controllers st))\<rparr>,
                     Some \<lparr>call_prompt = tc, call_settings = settingsToUse s st,
                           call_apiKey = Some k,
                           call_baseUrl = Option.bind (apiProviderConfig s st) baseUrl,
                           call_signal = length (controllers st), call_sessionId = a\<rparr>)) \<and>
               (map_option apiKey (apiProviderConfig s st) = None \<or>
                map_option apiKey (apiProviderConfig s st) = Some [] \<longrightarrow>
                  (\<exists>t. handleSaveEdit True messageId newContent now st =
                         (st'\<lparr>toasts := toasts st' @ [ToastError t]\<rparr>, None))))) \<and>
         (i + 1 = length (messages s) \<longrightarrow>
           (let s' = s\<lparr>messages := (messages s)
                          [i := (messages s ! i)\<lparr>content := trim newContent, timestamp := now\<rparr>],
                        lastModified := now\<rparr>;
                st' = st\<lparr>sessions := pre @ s' # post, editingMessageId := None,
                         toasts := toasts st @ [ToastSuccess (js ''Message updated'')]\<rparr>
            in handleSaveEdit_update e messageId newContent now st = (st', None) \<and>
               handleSaveEdit e messageId newContent now st = (st', None)))"
proof (intro conjI impI)
  assume last: "i + 1 = length (messages s)"
  show "let s' = s\<lparr>messages := (messages s)
                          [i := (messages s ! i)\<lparr>content := trim newContent, timestamp := now\<rparr>],
                        lastModified := now\<rparr>;
                st' = st\<lparr>sessions := pre @ s' # post, editingMessageId := None,
                         toasts := toasts st @ [ToastSuccess (js ''Message updated'')]\<rparr>
            in handleSaveEdit_update e messageId newContent now st = (st', None) \<and>
               handleSaveEdit e messageId newContent now st = (st', None)"
    using last assms(9,10)
    by (simp add: handleSaveEdit_def handleSaveEdit_update_found[OF assms(1-8)] Let_def)
next
  assume lt: "i + 1 < length (messages s)"
  define tc where "tc = trim newContent"
  define s' where "s' = s\<lparr>messages := take i (messages s) @
                          [(messages s ! i)\<lparr>content := tc, timestamp := now\<rparr>],
                        lastModified := now\<rparr>"
  define st' where "st' = st\<lparr>sessions := pre @ s' # post, editingMessageId := None,
                         toasts := toasts st @ [ToastSuccess (js ''Message updated'')]\<rparr>"
  have upd: "handleSaveEdit_update True messageId newContent now st = (st', Some (tc, s'))"
    using lt assms(9,10)
    by (simp add: handleSaveEdit_update_found[OF assms(1-8)] Let_def tc_def s'_def st'_def)
  then have hs: "handleSaveEdit True messageId newContent now st = performAICall_begin tc s' st'"
    by (simp add: handleSaveEdit_def)
  have cg: "apiProviderConfig s' st' = apiProviderConfig s st"
    "settingsToUse s' st' = settingsToUse s st"
    by (rule credential_cong; simp add: s'_def st'_def)+
  have key: "handleSaveEdit True messageId newContent now st =
                    (st'\<lparr>isLoading := True, controllers := controllers st @ [False],
                         abortControllerRef := Some (length (controllers st))\<rparr>,
                     Some \<lparr>call_prompt = tc, call_settings = settingsToUse s st,
                           call_apiKey = Some k,
                           call_baseUrl = Option.bind (apiProviderConfig s st) baseUrl,
                           call_signal = length (controllers st), call_sessionId = a\<rparr>)"
    if "map_option apiKey (apiProviderConfig s st) = Some k \<and> k \<noteq> []" for k
  proof -
    from that have "map_option apiKey (apiProviderConfig s' st') = Some k" "k \<noteq> []"
      by (simp_all add: cg)
    from performAICall_begin_key[OF this, of tc] show ?thesis
      by (simp add: hs cg) (simp add: s'_def st'_def assms(4))
  qed
  have nokey: "\<exists>t. handleSaveEdit True messageId newContent now st =
                         (st'\<lparr>toasts := toasts st' @ [ToastError t]\<rparr>, None)"
    if "map_option apiKey (apiProviderConfig s st) = None \<or>
        map_option apiKey (apiProviderConfig s st) = Some []"
  proof -
    from that have "map_option apiKey (apiProviderConfig s' st') = None \<or>
        map_option apiKey (apiProviderConfig s' st') = Some []"
      by (simp add: cg)
    from performAICall_begin_nokey[OF this, of tc] show ?thesis by (simp add: hs)
  qed
  show "let tc = trim newContent;
                s' = s\<lparr>messages := take i (messages s) @
                          [(messages s ! i)\<lparr>content := tc, timestamp := now\<rparr>],
                        lastModified := now\<rparr>;
                st' = st\<lparr>sessions := pre @ s' # post, editingMessageId := None,
                         toasts := toasts st @ [ToastSuccess (js ''Message updated'')]\<rparr>
            in handleSaveEdit_update True messageId newContent now st = (st', Some (tc, s')) \<and>
               (\<forall>k. map_option apiKey (apiProviderConfig s st) = Some k \<and> k \<noteq> [] \<longrightarrow>
                  handleSaveEdit True messageId newContent now st =
                    (st'\<lparr>isLoading := True, controllers := controllers st @ [False],
                         abortControllerRef := Some (length (controllers st))\<rparr>,
                     Some \<lparr>call_prompt = tc, call_settings = settingsToUse s st,
                           call_apiKey = Some k,
                           call_baseUrl = Option.bind (apiProviderConfig s st) baseUrl,
                           call_signal = length (controllers st), call_sessionId = a\<rparr>)) \<and>
               (map_option apiKey (apiProviderConfig s st) = None \<or>
                map_option apiKey (apiProviderConfig s st) = Some [] \<longrightarrow>
                  (\<exists>t. handleSaveEdit True messageId newContent now st =
                         (st'\<lparr>toasts := toasts st' @ [ToastError t]\<rparr>, None)))"
    unfolding Let_def tc_def[symmetric] s'_def[symmetric] st'_def[symmetric]
    using upd key nokey by blast
qed

text \<open>
  C3 as stated fails. The user message \<open>m1\<close> is the first of four and its content
  \<open>hi\<close> is changed. With no provider configured, the session is truncated to the
  edited message and no generation starts. With a provider configured but the updater
  run only at the next render, the session is truncated and \<open>performAICall\<close> is not
  called. And when the new content is blank, it differs from the original and nothing
  happens at all.
\<close>

theorem edit_user_message_counterexample:
  "role ex_m1 = User \<and> content ex_m1 = js ''hi'' \<and>
   messages ex_session_a = [ex_m1, ex_m2, ex_m3, ex_m4] \<and>
   trim (js ''hey'') = js ''hey'' \<and>
   snd (handleSaveEdit True (js ''m1'') (js ''hey'') 9 ex_state_nokey) = None \<and>
   sessions (fst (handleSaveEdit True (js ''m1'') (js ''hey'') 9 ex_state_nokey)) =
     [ex_session_b,
      ex_session_a\<lparr>messages := [ex_m1\<lparr>content := js ''hey'', timestamp := 9\<rparr>],
                   lastModified := 9\<rparr>] \<and>
   handleSaveEdit False (js ''m1'') (js ''hey'') 9 ex_state =
     (ex_state\<lparr>sessions :=
         [ex_session_b,
          ex_session_a\<lparr>messages := [ex_m1\<lparr>content := js ''hey'', timestamp := 9\<rparr>],
                       lastModified := 9\<rparr>],
        editingMessageId := None,
        toasts := [ToastSuccess (js ''Message updated'')]\<rparr>,
      None) \<and>
   trim (js ''  '') = [] \<and>
   handleSaveEdit True (js ''m1'') (js ''  '') 9 ex_state = (ex_state, None)"
proof -
  have e: "trim (js ''  '') = []" by (simp add: trim_def is_js_space_def)
  have a: "role ex_m1 = User \<and> content ex_m1 = js ''hi'' \<and>
     messages ex_session_a = [ex_m1, ex_m2, ex_m3, ex_m4] \<and> trim (js ''hey'') = js ''hey''"
    by (simp add: ex_m1_def ex_session_a_def trim_def is_js_space_def)
  have b: "snd (handleSaveEdit True (js ''m1'') (js ''hey'') 9 ex_state_nokey) = None \<and>
     sessions (fst (handleSaveEdit True (js ''m1'') (js ''hey'') 9 ex_state_nokey)) =
     [ex_session_b,
      ex_session_a\<lparr>messages := [ex_m1\<lparr>content := js ''hey'', timestamp := 9\<rparr>],
                   lastModified := 9\<rparr>]"
    by (simp add: edit_defs run_defs ex_defs config_defs)
  have c: "handleSaveEdit False (js ''m1'') (js ''hey'') 9 ex_state =
     (ex_state\<lparr>sessions :=
         [ex_session_b,
          ex_session_a\<lparr>messages := [ex_m1\<lparr>content := js ''hey'', timestamp := 9\<rparr>],
                       lastModified := 9\<rparr>],
        editingMessageId := None,
        toasts := [ToastSuccess (js ''Message updated'')]\<rparr>,
      None)"
    by (simp add: edit_defs Let_def ex_defs)
  from a b c e handleSaveEdit_empty[OF e, of True "js ''m1''" 9 ex_state] show ?thesis by simp
qed

theorem edit_user_message_changed_witness:
  "trim (js '' hey '') = js ''hey'' \<and> role (messages ex_session_a ! 0) = User \<and>
   content (messages ex_session_a ! 0) \<noteq> js ''hey'' \<and>
   handleSaveEdit True (js ''m1'') (js '' hey '') 9 ex_state =
     (ex_state\<lparr>sessions :=
         [ex_session_b,
          ex_session_a\<lparr>messages := [ex_m1\<lparr>content := js ''hey'', timestamp := 9\<rparr>],
                       lastModified := 9\<rparr>],
        editingMessageId := None,
        toasts := [ToastSuccess (js ''Message updated'')],
        isLoading := True, controllers := [False], abortControllerRef := Some 0\<rparr>,
      Some \<lparr>call_prompt = js ''hey'', call_settings = DEFAULT_CHAT_SETTINGS,
            call_apiKey = Some (js ''sk''), call_baseUrl = None, call_signal = 0,
            call_sessionId = js ''a''\<rparr>) \<and>
   handleSaveEdit True (js ''m3'') (js ''again'') 9
     (ex_state\<lparr>sessions := [ex_session_b, ex_session_a\<lparr>messages := [ex_m1, ex_m2, ex_m3]\<rparr>]\<rparr>) =
     (ex_state\<lparr>sessions :=
         [ex_session_b,
          ex_session_a\<lparr>messages := [ex_m1, ex_m2, ex_m3\<lparr>content := js ''again'', timestamp := 9\<rparr>],
                       lastModified := 9\<rparr>],
        editingMessageId := None,
        toasts := toasts ex_state @ [ToastSuccess (js ''Message updated'')]\<rparr>,
      None)"
proof -
  have tr: "trim (js '' hey '') = js ''hey''" by (simp add: trim_def is_js_space_def)
  have h6: "findIndex (\<lambda>m. msg_id m = js ''m1'') (messages ex_session_a) = Some 0"
    by (simp add: ex_session_a_def ex_m1_def)
  have h8: "trim (js '' hey '') \<noteq> []" using tr by simp
  have h9: "role (messages ex_session_a ! 0) = User" by (simp add: ex_session_a_def ex_m1_def)
  have h10: "content (messages ex_session_a ! 0) \<noteq> trim (js '' hey '')"
    using tr by (simp add: ex_session_a_def ex_m1_def)
  note t = edit_user_message_changed[OF ex_edit_hyps(1-5) h6 ex_edit_hyps(6) h8 h9 h10,
      where now = 9]
  have lt: "0 + 1 < length (messages ex_session_a)" by (simp add: ex_edit_hyps(7))
  have cfg: "apiProviderConfig ex_session_a ex_state = Some ex_provider"
    "settingsToUse ex_session_a ex_state = DEFAULT_CHAT_SETTINGS"
    by (simp_all add: apiProviderConfig_def settingsToUse_def ex_state_def ex_session_a_def
        ex_provider_def config_defs)
  have pk: "apiKey ex_provider = js ''sk''" "js ''sk'' \<noteq> []" "baseUrl ex_provider = None"
    by (simp_all add: ex_provider_def)
  have st: "toasts ex_state = []" "controllers ex_state = []"
    by (simp_all add: ex_state_def)
  from t lt have first: "handleSaveEdit True (js ''m1'') (js '' hey '') 9 ex_state =
     (ex_state\<lparr>sessions :=
         [ex_session_b,
          ex_session_a\<lparr>messages := [ex_m1\<lparr>content := js ''hey'', timestamp := 9\<rparr>],
                       lastModified := 9\<rparr>],
        editingMessageId := None,
        toasts := [ToastSuccess (js ''Message updated'')],
        isLoading := True, controllers := [False], abortControllerRef := Some 0\<rparr>,
      Some \<lparr>call_prompt = js ''hey'', call_settings = DEFAULT_CHAT_SETTINGS,
            call_apiKey = Some (js ''sk''), call_baseUrl = None, call_signal = 0,
            call_sessionId = js ''a''\<rparr>)"
    using tr pk by (simp add: Let_def cfg st ex_edit_hyps(7))
  let ?sc = "ex_session_a\<lparr>messages := [ex_m1, ex_m2, ex_m3]\<rparr>"
  let ?st = "ex_state\<lparr>sessions := [ex_session_b, ?sc]\<rparr>"
  have tr2: "trim (js ''again'') = js ''again''" by (simp add: trim_def is_js_space_def)
  have g1: "activeSessionId ?st = Some (js ''a'')" by (simp add: ex_state_def)
  have g3: "sessions ?st = [ex_session_b] @ ?sc # []" by simp
  have g4: "sess_id ?sc = js ''a''" by (simp add: ex_session_a_def)
  have g6: "findIndex (\<lambda>m. msg_id m = js ''m3'') (messages ?sc) = Some 2"
    by (simp add: ex_m1_def ex_m2_def ex_m3_def)
  have g7: "distinct (map msg_id (messages ?sc))" by (simp add: ex_m1_def ex_m2_def ex_m3_def)
  have g8: "trim (js ''again'') \<noteq> []" using tr2 by simp
  have g9: "role (messages ?sc ! 2) = User" by (simp add: ex_m3_def)
  have g10: "content (messages ?sc ! 2) \<noteq> trim (js ''again'')"
    using tr2 by (simp add: ex_m3_def)
  note u = edit_user_message_changed[OF g1 ex_edit_hyps(2) g3 g4 ex_edit_hyps(5) g6 g7 g8 g9 g10,
      where now = 9 and e = True]
  have eq: "2 + 1 = length (messages ?sc)" by simp
  from u eq have last: "handleSaveEdit True (js ''m3'') (js ''again'') 9
     (ex_state\<lparr>sessions := [ex_session_b, ex_session_a\<lparr>messages := [ex_m1, ex_m2, ex_m3]\<rparr>]\<rparr>) =
     (ex_state\<lparr>sessions :=
         [ex_session_b,
          ex_session_a\<lparr>messages := [ex_m1, ex_m2, ex_m3\<lparr>content := js ''again'', timestamp := 9\<rparr>],
                       lastModified := 9\<rparr>],
        editingMessageId := None,
        toasts := toasts ex_state @ [ToastSuccess (js ''Message updated'')]\<rparr>,
      None)"
    using tr2 by (simp add: Let_def)
  from tr h9 h10 first last show ?thesis by simp
qed

text \<open>
  C6, as the code has it. The claim is that a saved edit of an assistant message
  changes nothing. In \<open>handleSaveEdit\<close> only the regeneration depends on the role:
  for non-empty trimmed content the assistant message found at index \<open>i\<close> gets the
  trimmed content and a new timestamp, no message is dropped and no generation is
  requested, whenever the updater runs.
\<close>

theorem edit_assistant_message_changes_content:
  assumes "activeSessionId st = Some a" and "a \<noteq> []"
    and "sessions st = pre @ s # post"
    and "sess_id s = a" and "\<forall>x \<in> set pre \<union> set post. sess_id x \<noteq> a"
    and "findIndex (\<lambda>m. msg_id m = messageId) (messages s) = Some i"
    and "distinct (map msg_id (messages s))"
    and "trim newContent \<noteq> []"
    and "role (messages s ! i) = Assistant"
  shows "(let s' = s\<lparr>messages := (messages s)
                          [i := (messages s ! i)\<lparr>content := trim newContent, timestamp := now\<rparr>],
                      lastModified := now\<rparr>;
              st' = st\<lparr>sessions := pre @ s' # post, editingMessageId := None,
                       toasts := toasts st @ [ToastSuccess (js ''Message updated'')]\<rparr>
          in handleSaveEdit_update e messageId newContent now st = (st', None) \<and>
             handleSaveEdit e messageId newContent now st = (st', None))"
  using assms(9)
  by (simp add: handleSaveEdit_def handleSaveEdit_update_found[OF assms(1-8)] Let_def)

theorem edit_assistant_message_changes_content_witness:
  "trim (js ''changed'') = js ''changed'' \<and> role (messages ex_session_a ! 1) = Assistant \<and>
   handleSaveEdit True (js ''m2'') (js ''changed'') 9 ex_state =
     (ex_state\<lparr>sessions :=
         [ex_session_b,
          ex_session_a\<lparr>messages := [ex_m1, ex_m2\<lparr>content := js ''changed'', timestamp := 9\<rparr>,
                                    ex_m3, ex_m4],
                       lastModified := 9\<rparr>],
        editingMessageId := None,
        toasts := toasts ex_state @ [ToastSuccess (js ''Message updated'')]\<rparr>,
      None)"
proof -
  have tr: "trim (js ''changed'') = js ''changed''" by (simp add: trim_def is_js_space_def)
  have h6: "findIndex (\<lambda>m. msg_id m = js ''m2'') (messages ex_session_a) = Some 1"
    by (simp add: ex_session_a_def ex_m1_def ex_m2_def)
  have h8: "trim (js ''changed'') \<noteq> []" using tr by simp
  have h9: "role (messages ex_session_a ! 1) = Assistant" by (simp add: ex_session_a_def ex_m2_def)
  note t = edit_assistant_message_changes_content
             [OF ex_edit_hyps(1-5) h6 ex_edit_hyps(6) h8 h9, where now = 9 and e = True]
  from t have "handleSaveEdit True (js ''m2'') (js ''changed'') 9 ex_state =
     (ex_state\<lparr>sessions :=
         [ex_session_b,
          ex_session_a\<lparr>messages := [ex_m1, ex_m2\<lparr>content := js ''changed'', timestamp := 9\<rparr>,
                                    ex_m3, ex_m4],
                       lastModified := 9\<rparr>],
        editingMessageId := None,
        toasts := toasts ex_state @ [ToastSuccess (js ''Message updated'')]\<rparr>,
      None)"
    using tr by (simp add: Let_def ex_edit_hyps(7))
  with tr h9 show ?thesis by simp
qed

text \<open>
  C6 as stated fails: saving \<open>changed\<close> for the assistant message \<open>m2\<close>, whose
  content was \<open>hello\<close>, leaves the session with \<open>m2\<close> holding \<open>changed\<close>.
\<close>

theorem edit_assistant_message_counterexample:
  "role ex_m2 = Assistant \<and> content ex_m2 = js ''hello'' \<and>
   sessions (fst (handleSaveEdit True (js ''m2'') (js ''changed'') 9 ex_state)) =
     [ex_session_b,
      ex_session_a\<lparr>messages := [ex_m1, ex_m2\<lparr>content := js ''changed'', timestamp := 9\<rparr>,
                                ex_m3, ex_m4],
                   lastModified := 9\<rparr>] \<and>
   sessions (fst (handleSaveEdit False (js ''m2'') (js ''changed'') 9 ex_state)) =
     [ex_session_b,
      ex_session_a\<lparr>messages := [ex_m1, ex_m2\<lparr>content := js ''changed'', timestamp := 9\<rparr>,
                                ex_m3, ex_m4],
                   lastModified := 9\<rparr>]"
  by (simp add: edit_defs Let_def ex_state_def ex_session_a_def ex_session_b_def ex_m1_def ex_m2_def
      ex_m3_def ex_m4_def)

text \<open>
  C5, the code at a failing input. Saving the all-blank content for the user message
  \<open>m3\<close> of the active session returns the state as it was: \<open>m3\<close> is still in
  the session, where \<open>handleDeleteMessage\<close> would have removed it. No generation is
  requested.
\<close>

theorem empty_edit_keeps_message:
  "trim (js ''   '') = [] \<and>
   handleSaveEdit True (js ''m3'') (js ''   '') 9 ex_state = (ex_state, None) \<and>
   handleSaveEdit False (js ''m3'') (js ''   '') 9 ex_state = (ex_state, None) \<and>
   sessions ex_state = [ex_session_b, ex_session_a] \<and>
   messages ex_session_a = [ex_m1, ex_m2, ex_m3, ex_m4] \<and>
   sessions (handleDeleteMessage (js ''m3'') 9 ex_state) =
     [ex_session_b, ex_session_a\<lparr>messages := [ex_m1, ex_m2, ex_m4], lastModified := 9\<rparr>]"
proof -
  have t: "trim (js ''   '') = []" by (simp add: trim_def is_js_space_def)
  have d: "sessions (handleDeleteMessage (js ''m3'') 9 ex_state) =
     [ex_session_b, ex_session_a\<lparr>messages := [ex_m1, ex_m2, ex_m4], lastModified := 9\<rparr>]"
    by (simp add: handleDeleteMessage_def ex_state_def ex_session_a_def ex_session_b_def ex_m1_def
        ex_m2_def ex_m3_def ex_m4_def)
  show ?thesis
    using t handleSaveEdit_empty[OF t, of True] handleSaveEdit_empty[OF t, of False] d
    by (simp add: ex_state_def ex_session_a_def)
qed

section \<open>Saving chat settings\<close>

text \<open>
  C4, the code at a failing input. The global default model has been changed to
  \<open>gpt-4o\<close> and the active session has an override. Saving settings equal to the
  current global defaults stores them as the session's override, and the session does
  not report default settings afterwards: \<open>handleSaveChanges\<close> compares with the
  built-in \<open>DEFAULT_CHAT_SETTINGS\<close>, not with the current global defaults. With the
  global defaults still the built-in ones, the same save removes the override.
\<close>

theorem save_override_equal_to_defaults:
  "defaultChatSettings (appSettings ex_state_override) = ex_global_defaults \<and>
   \<not> isUsingDefaultSettings (handleSaveChanges ex_global_defaults 9 ex_state_override) \<and>
   Option.bind (activeSession (handleSaveChanges ex_global_defaults 9 ex_state_override)) settings
     = Some ex_global_defaults \<and>
   isUsingDefaultSettings
     (handleSaveChanges DEFAULT_CHAT_SETTINGS 9
        (ex_state_override\<lparr>appSettings := appSettings ex_state\<rparr>))"
  by (simp add: settings_defs ex_defs config_defs)

end
